theory Spec2Isabelle
  imports Complex_Main "HOL-Library.AList" "HOL-Library.Word"
begin

section \<open>Data model (shared/schema.ts)\<close>

text \<open>
  Every table of \<^verbatim>\<open>shared/schema.ts\<close> is a record. Integer columns are \<open>int\<close>,
  \<^verbatim>\<open>doublePrecision\<close> columns are \<open>real\<close>, \<^verbatim>\<open>text\<close> and \<^verbatim>\<open>date\<close> columns are
  strings, a nullable column is an \<open>option\<close> (\<open>None\<close> is \<^verbatim>\<open>null\<close>), and a timestamp is
  the clock reading it was taken from. The columns \<^verbatim>\<open>role\<close> and \<^verbatim>\<open>status\<close> are plain
  \<^verbatim>\<open>text\<close> in the schema (the union types exist for the TypeScript compiler only), so
  they are strings here as well. Field names carry a prefix per record.
\<close>

record user =
  u_id :: int
  u_username :: string
  u_password :: string
  u_phone :: string
  u_name :: string
  u_email :: "string option"
  u_role :: string
  u_isFirstLogin :: bool
  u_managerId :: "int option"
  u_createdAt :: int

record chitGroup =
  cg_id :: int
  cg_name :: string
  cg_value :: int
  cg_duration :: int
  cg_membersCount :: int
  cg_startDate :: string
  cg_isActive :: bool
  cg_createdBy :: int
  cg_createdAt :: int

record chitGroupMember =
  m_id :: int
  m_chitGroupId :: int
  m_userId :: int
  m_joinDate :: string
  m_createdAt :: int

record auction =
  a_id :: int
  a_chitGroupId :: int
  a_auctionDate :: string
  a_winnerUserId :: "int option"
  a_winningBid :: "real option"
  a_status :: string
  a_monthNumber :: int
  a_createdAt :: int

record bid =
  b_id :: int
  b_auctionId :: int
  b_userId :: int
  b_bidAmount :: real
  b_bidTime :: int
  b_createdAt :: int

record payment =
  p_id :: int
  p_chitGroupId :: int
  p_userId :: int
  p_amount :: real
  p_paymentDate :: string
  p_monthNumber :: int
  p_status :: string
  p_createdAt :: int

record notification =
  n_id :: int
  n_userId :: int
  n_message :: string
  n_isRead :: bool
  n_type :: string
  n_createdAt :: int

subsection \<open>Insert shapes\<close>

text \<open>
  The \<^verbatim>\<open>Insert*\<close> types are what the zod insert schemas produce. A key that may be
  left out is an \<open>option\<close> (\<open>None\<close>: the key is absent); where the column is nullable
  as well, the value under a present key is itself an \<open>option\<close>.
  \<^verbatim>\<open>insertChitGroupSchema\<close> omits \<^verbatim>\<open>createdBy\<close>; the route adds it before calling the
  store, and the store reads it with a fallback, so the store's argument has it as an
  optional key.
\<close>

record insertUser =
  iu_username :: string
  iu_password :: string
  iu_phone :: string
  iu_name :: string
  iu_email :: "string option option"
  iu_role :: string
  iu_isFirstLogin :: "bool option"
  iu_managerId :: "int option option"

record insertChitGroup =
  icg_name :: string
  icg_value :: int
  icg_duration :: int
  icg_membersCount :: int
  icg_startDate :: string
  icg_isActive :: "bool option"
  icg_createdBy :: "int option"

record insertChitGroupMember =
  im_chitGroupId :: int
  im_userId :: int
  im_joinDate :: string

record insertAuction =
  ia_chitGroupId :: int
  ia_auctionDate :: string
  ia_winnerUserId :: "int option option"
  ia_winningBid :: "real option option"
  ia_status :: string
  ia_monthNumber :: int

record insertBid =
  ib_auctionId :: int
  ib_userId :: int
  ib_bidAmount :: real

record insertPayment =
  ip_chitGroupId :: int
  ip_userId :: int
  ip_amount :: real
  ip_paymentDate :: string
  ip_monthNumber :: int
  ip_status :: string

record insertNotification =
  in_userId :: int
  in_message :: string
  in_type :: string

subsection \<open>Partial shapes\<close>

text \<open>
  \<^verbatim>\<open>Partial<T>\<close>: every key of \<open>T\<close> may be absent. An object spread
  \<^verbatim>\<open>{ ...old, ...patch }\<close> keeps the old value of each key the patch leaves out and
  takes the patch's value of each key it has.
\<close>

definition spread :: "'a \<Rightarrow> 'a option \<Rightarrow> 'a" where
  "spread old patch = (case patch of None \<Rightarrow> old | Some v \<Rightarrow> v)"

record partialUser =
  pu_id :: "int option"
  pu_username :: "string option"
  pu_password :: "string option"
  pu_phone :: "string option"
  pu_name :: "string option"
  pu_email :: "string option option"
  pu_role :: "string option"
  pu_isFirstLogin :: "bool option"
  pu_managerId :: "int option option"
  pu_createdAt :: "int option"

record partialChitGroup =
  pcg_id :: "int option"
  pcg_name :: "string option"
  pcg_value :: "int option"
  pcg_duration :: "int option"
  pcg_membersCount :: "int option"
  pcg_startDate :: "string option"
  pcg_isActive :: "bool option"
  pcg_createdBy :: "int option"
  pcg_createdAt :: "int option"

record partialAuction =
  pa_id :: "int option"
  pa_chitGroupId :: "int option"
  pa_auctionDate :: "string option"
  pa_winnerUserId :: "int option option"
  pa_winningBid :: "real option option"
  pa_status :: "string option"
  pa_monthNumber :: "int option"
  pa_createdAt :: "int option"

section \<open>What the code takes from its runtime\<close>

text \<open>
  The handlers read the clock, parse dates with the JavaScript \<^verbatim>\<open>Date\<close> class, derive
  keys with \<^verbatim>\<open>crypto.scrypt\<close>, draw salts from \<^verbatim>\<open>crypto.randomBytes\<close> and render
  numbers in template strings. None of these is code of the repository; they are the
  fields of an environment that every operation receives.
  \<^item> \<open>now\<close>: the value of \<^verbatim>\<open>new Date()\<close> during the request;
  \<^item> \<open>toISODate s\<close>: \<^verbatim>\<open>new Date(s).toISOString().split('T')[0]\<close>, \<open>None\<close> when it
    throws (an invalid date);
  \<^item> \<open>scrypt password salt keylen\<close>: the derived key, as bytes;
  \<^item> \<open>randomBytes n\<close>: the bytes drawn during the request;
  \<^item> \<open>numberToString x\<close>: the text of a number inside a template string.
\<close>

type_synonym byte = "8 word"

record env =
  now :: int
  toISODate :: "string \<Rightarrow> string option"
  scrypt :: "string \<Rightarrow> string \<Rightarrow> nat \<Rightarrow> byte list"
  randomBytes :: "nat \<Rightarrow> byte list"
  numberToString :: "real \<Rightarrow> string"

section \<open>The in-memory store (server/storage.ts, class MemStorage)\<close>

text \<open>
  A JavaScript \<^verbatim>\<open>Map\<close> keeps its entries in insertion order; \<^verbatim>\<open>set\<close> on a key that
  is present replaces the value where it stands and on a new key appends. That is
  \<open>AList.update\<close> on an association list; \<^verbatim>\<open>get\<close> is \<open>map_of\<close>, and
  \<^verbatim>\<open>Array.from(m.values())\<close> is \<open>map snd\<close>.
\<close>

record store =
  users :: "(int \<times> user) list"
  chitGroups :: "(int \<times> chitGroup) list"
  chitGroupMembers :: "(int \<times> chitGroupMember) list"
  auctions :: "(int \<times> auction) list"
  bids :: "(int \<times> bid) list"
  payments :: "(int \<times> payment) list"
  notifications :: "(int \<times> notification) list"
  userIdCounter :: int
  chitGroupIdCounter :: int
  chitGroupMemberIdCounter :: int
  auctionIdCounter :: int
  bidIdCounter :: int
  paymentIdCounter :: int
  notificationIdCounter :: int

definition newMemStorage :: store where
  "newMemStorage =
     \<lparr> users = [], chitGroups = [], chitGroupMembers = [], auctions = [], bids = [],
       payments = [], notifications = [],
       userIdCounter = 1, chitGroupIdCounter = 1, chitGroupMemberIdCounter = 1,
       auctionIdCounter = 1, bidIdCounter = 1, paymentIdCounter = 1,
       notificationIdCounter = 1 \<rparr>"

subsection \<open>Users\<close>

definition getUser :: "store \<Rightarrow> int \<Rightarrow> user option" where
  "getUser st i = map_of (users st) i"

definition getUserByUsername :: "store \<Rightarrow> string \<Rightarrow> user option" where
  "getUserByUsername st n = find (\<lambda>u. u_username u = n) (map snd (users st))"

text \<open>
  \<^verbatim>\<open>userData.email || null\<close> and \<^verbatim>\<open>userData.managerId || null\<close>: an absent key, a
  \<^verbatim>\<open>null\<close>, the empty string and the number 0 are all falsy.
\<close>

definition createUser :: "env \<Rightarrow> store \<Rightarrow> insertUser \<Rightarrow> user \<times> store" where
  "createUser e st userData =
     (let i = userIdCounter st;
          createdAt = now e;
          email = (case iu_email userData of
                     Some (Some a) \<Rightarrow> if a = [] then None else Some a
                   | _ \<Rightarrow> None);
          isFirstLogin = (case iu_isFirstLogin userData of Some b \<Rightarrow> b | None \<Rightarrow> True);
          managerId = (if iu_role userData = ''customer''
                       then (case iu_managerId userData of
                               Some (Some m) \<Rightarrow> if m = 0 then None else Some m
                             | _ \<Rightarrow> None)
                       else None);
          u = \<lparr> u_id = i, u_username = iu_username userData,
                u_password = iu_password userData, u_phone = iu_phone userData,
                u_name = iu_name userData, u_email = email, u_role = iu_role userData,
                u_isFirstLogin = isFirstLogin, u_managerId = managerId,
                u_createdAt = createdAt \<rparr>
      in (u, st\<lparr> users := AList.update i u (users st), userIdCounter := i + 1 \<rparr>))"

definition mergeUser :: "user \<Rightarrow> partialUser \<Rightarrow> user" where
  "mergeUser u d =
     \<lparr> u_id = spread (u_id u) (pu_id d),
       u_username = spread (u_username u) (pu_username d),
       u_password = spread (u_password u) (pu_password d),
       u_phone = spread (u_phone u) (pu_phone d),
       u_name = spread (u_name u) (pu_name d),
       u_email = spread (u_email u) (pu_email d),
       u_role = spread (u_role u) (pu_role d),
       u_isFirstLogin = spread (u_isFirstLogin u) (pu_isFirstLogin d),
       u_managerId = spread (u_managerId u) (pu_managerId d),
       u_createdAt = spread (u_createdAt u) (pu_createdAt d) \<rparr>"

definition updateUser :: "store \<Rightarrow> int \<Rightarrow> partialUser \<Rightarrow> user option \<times> store" where
  "updateUser st i userData =
     (case map_of (users st) i of
        None \<Rightarrow> (None, st)
      | Some u \<Rightarrow>
          (let updatedUser = mergeUser u userData
           in (Some updatedUser, st\<lparr> users := AList.update i updatedUser (users st) \<rparr>)))"

subsection \<open>Chit groups\<close>

definition createChitGroup :: "env \<Rightarrow> store \<Rightarrow> insertChitGroup \<Rightarrow> chitGroup \<times> store" where
  "createChitGroup e st chitGroupData =
     (let i = chitGroupIdCounter st;
          createdAt = now e;
          isActive = (case icg_isActive chitGroupData of Some b \<Rightarrow> b | None \<Rightarrow> True);
          startDate = (case toISODate e (icg_startDate chitGroupData) of
                         Some d \<Rightarrow> d
                       | None \<Rightarrow> icg_startDate chitGroupData);
          g = \<lparr> cg_id = i, cg_name = icg_name chitGroupData,
                cg_value = icg_value chitGroupData,
                cg_duration = icg_duration chitGroupData,
                cg_membersCount = icg_membersCount chitGroupData,
                cg_startDate = startDate, cg_isActive = isActive,
                cg_createdBy = (case icg_createdBy chitGroupData of
                                  Some c \<Rightarrow> c | None \<Rightarrow> 0),
                cg_createdAt = createdAt \<rparr>
      in (g, st\<lparr> chitGroups := AList.update i g (chitGroups st),
                  chitGroupIdCounter := i + 1 \<rparr>))"

definition getChitGroup :: "store \<Rightarrow> int \<Rightarrow> chitGroup option" where
  "getChitGroup st i = map_of (chitGroups st) i"

definition getAllChitGroups :: "store \<Rightarrow> chitGroup list" where
  "getAllChitGroups st = map snd (chitGroups st)"

definition mergeChitGroup :: "chitGroup \<Rightarrow> partialChitGroup \<Rightarrow> chitGroup" where
  "mergeChitGroup g d =
     \<lparr> cg_id = spread (cg_id g) (pcg_id d),
       cg_name = spread (cg_name g) (pcg_name d),
       cg_value = spread (cg_value g) (pcg_value d),
       cg_duration = spread (cg_duration g) (pcg_duration d),
       cg_membersCount = spread (cg_membersCount g) (pcg_membersCount d),
       cg_startDate = spread (cg_startDate g) (pcg_startDate d),
       cg_isActive = spread (cg_isActive g) (pcg_isActive d),
       cg_createdBy = spread (cg_createdBy g) (pcg_createdBy d),
       cg_createdAt = spread (cg_createdAt g) (pcg_createdAt d) \<rparr>"

text \<open>
  \<^verbatim>\<open>updateChitGroup\<close> normalises a non-empty \<^verbatim>\<open>startDate\<close> before merging and drops
  the key when the date cannot be parsed; an empty string is falsy and is merged as it
  is.
\<close>

definition updateChitGroup ::
  "env \<Rightarrow> store \<Rightarrow> int \<Rightarrow> partialChitGroup \<Rightarrow> chitGroup option \<times> store" where
  "updateChitGroup e st i chitGroupData =
     (case map_of (chitGroups st) i of
        None \<Rightarrow> (None, st)
      | Some g \<Rightarrow>
          (let processedData =
                 (case pcg_startDate chitGroupData of
                    None \<Rightarrow> chitGroupData
                  | Some s \<Rightarrow>
                      if s = [] then chitGroupData
                      else chitGroupData\<lparr> pcg_startDate := toISODate e s \<rparr>);
               updatedChitGroup = mergeChitGroup g processedData
           in (Some updatedChitGroup,
               st\<lparr> chitGroups := AList.update i updatedChitGroup (chitGroups st) \<rparr>)))"

definition getChitGroupsByUser :: "store \<Rightarrow> int \<Rightarrow> chitGroup list" where
  "getChitGroupsByUser st userId =
     (let memberEntries = filter (\<lambda>m. m_userId m = userId) (map snd (chitGroupMembers st))
      in List.map_filter (\<lambda>m. map_of (chitGroups st) (m_chitGroupId m)) memberEntries)"

subsection \<open>Memberships\<close>

definition addMemberToChitGroup ::
  "env \<Rightarrow> store \<Rightarrow> insertChitGroupMember \<Rightarrow> chitGroupMember \<times> store" where
  "addMemberToChitGroup e st memberData =
     (let i = chitGroupMemberIdCounter st;
          createdAt = now e;
          m = \<lparr> m_id = i, m_chitGroupId = im_chitGroupId memberData,
                m_userId = im_userId memberData, m_joinDate = im_joinDate memberData,
                m_createdAt = createdAt \<rparr>
      in (m, st\<lparr> chitGroupMembers := AList.update i m (chitGroupMembers st),
                  chitGroupMemberIdCounter := i + 1 \<rparr>))"

definition getChitGroupMembers :: "store \<Rightarrow> int \<Rightarrow> chitGroupMember list" where
  "getChitGroupMembers st chitGroupId =
     filter (\<lambda>m. m_chitGroupId m = chitGroupId) (map snd (chitGroupMembers st))"

definition removeMemberFromChitGroup :: "store \<Rightarrow> int \<Rightarrow> int \<Rightarrow> bool \<times> store" where
  "removeMemberFromChitGroup st chitGroupId userId =
     (case find (\<lambda>(k, m). m_chitGroupId m = chitGroupId \<and> m_userId m = userId)
             (chitGroupMembers st) of
        None \<Rightarrow> (False, st)
      | Some memberEntry \<Rightarrow>
          (True, st\<lparr> chitGroupMembers :=
                       AList.delete (fst memberEntry) (chitGroupMembers st) \<rparr>))"

subsection \<open>Auctions\<close>

definition createAuction :: "env \<Rightarrow> store \<Rightarrow> insertAuction \<Rightarrow> auction \<times> store" where
  "createAuction e st auctionData =
     (let i = auctionIdCounter st;
          createdAt = now e;
          winnerUserId = (case ia_winnerUserId auctionData of Some w \<Rightarrow> w | None \<Rightarrow> None);
          winningBid = (case ia_winningBid auctionData of Some w \<Rightarrow> w | None \<Rightarrow> None);
          a = \<lparr> a_id = i, a_chitGroupId = ia_chitGroupId auctionData,
                a_auctionDate = ia_auctionDate auctionData,
                a_winnerUserId = winnerUserId, a_winningBid = winningBid,
                a_status = ia_status auctionData,
                a_monthNumber = ia_monthNumber auctionData, a_createdAt = createdAt \<rparr>
      in (a, st\<lparr> auctions := AList.update i a (auctions st), auctionIdCounter := i + 1 \<rparr>))"

definition getAuction :: "store \<Rightarrow> int \<Rightarrow> auction option" where
  "getAuction st i = map_of (auctions st) i"

definition getAuctionsByChitGroup :: "store \<Rightarrow> int \<Rightarrow> auction list" where
  "getAuctionsByChitGroup st chitGroupId =
     filter (\<lambda>a. a_chitGroupId a = chitGroupId) (map snd (auctions st))"

definition mergeAuction :: "auction \<Rightarrow> partialAuction \<Rightarrow> auction" where
  "mergeAuction a d =
     \<lparr> a_id = spread (a_id a) (pa_id d),
       a_chitGroupId = spread (a_chitGroupId a) (pa_chitGroupId d),
       a_auctionDate = spread (a_auctionDate a) (pa_auctionDate d),
       a_winnerUserId = spread (a_winnerUserId a) (pa_winnerUserId d),
       a_winningBid = spread (a_winningBid a) (pa_winningBid d),
       a_status = spread (a_status a) (pa_status d),
       a_monthNumber = spread (a_monthNumber a) (pa_monthNumber d),
       a_createdAt = spread (a_createdAt a) (pa_createdAt d) \<rparr>"

definition updateAuction :: "store \<Rightarrow> int \<Rightarrow> partialAuction \<Rightarrow> auction option \<times> store" where
  "updateAuction st i auctionData =
     (case map_of (auctions st) i of
        None \<Rightarrow> (None, st)
      | Some a \<Rightarrow>
          (let updatedAuction = mergeAuction a auctionData
           in (Some updatedAuction,
               st\<lparr> auctions := AList.update i updatedAuction (auctions st) \<rparr>)))"

subsection \<open>Bids, payments, notifications\<close>

definition createBid :: "env \<Rightarrow> store \<Rightarrow> insertBid \<Rightarrow> bid \<times> store" where
  "createBid e st bidData =
     (let i = bidIdCounter st;
          createdAt = now e;
          bidTime = now e;
          b = \<lparr> b_id = i, b_auctionId = ib_auctionId bidData, b_userId = ib_userId bidData,
                b_bidAmount = ib_bidAmount bidData, b_bidTime = bidTime,
                b_createdAt = createdAt \<rparr>
      in (b, st\<lparr> bids := AList.update i b (bids st), bidIdCounter := i + 1 \<rparr>))"

definition getBidsByAuction :: "store \<Rightarrow> int \<Rightarrow> bid list" where
  "getBidsByAuction st auctionId =
     filter (\<lambda>b. b_auctionId b = auctionId) (map snd (bids st))"

definition createPayment :: "env \<Rightarrow> store \<Rightarrow> insertPayment \<Rightarrow> payment \<times> store" where
  "createPayment e st paymentData =
     (let i = paymentIdCounter st;
          createdAt = now e;
          p = \<lparr> p_id = i, p_chitGroupId = ip_chitGroupId paymentData,
                p_userId = ip_userId paymentData, p_amount = ip_amount paymentData,
                p_paymentDate = ip_paymentDate paymentData,
                p_monthNumber = ip_monthNumber paymentData,
                p_status = ip_status paymentData, p_createdAt = createdAt \<rparr>
      in (p, st\<lparr> payments := AList.update i p (payments st), paymentIdCounter := i + 1 \<rparr>))"

definition getPaymentsByUser :: "store \<Rightarrow> int \<Rightarrow> payment list" where
  "getPaymentsByUser st userId =
     filter (\<lambda>p. p_userId p = userId) (map snd (payments st))"

definition getPaymentsByChitGroup :: "store \<Rightarrow> int \<Rightarrow> payment list" where
  "getPaymentsByChitGroup st chitGroupId =
     filter (\<lambda>p. p_chitGroupId p = chitGroupId) (map snd (payments st))"

definition createNotification ::
  "env \<Rightarrow> store \<Rightarrow> insertNotification \<Rightarrow> notification \<times> store" where
  "createNotification e st notificationData =
     (let i = notificationIdCounter st;
          createdAt = now e;
          n = \<lparr> n_id = i, n_userId = in_userId notificationData,
                n_message = in_message notificationData, n_isRead = False,
                n_type = in_type notificationData, n_createdAt = createdAt \<rparr>
      in (n, st\<lparr> notifications := AList.update i n (notifications st),
                  notificationIdCounter := i + 1 \<rparr>))"

definition getNotificationsByUser :: "store \<Rightarrow> int \<Rightarrow> notification list" where
  "getNotificationsByUser st userId =
     filter (\<lambda>n. n_userId n = userId) (map snd (notifications st))"

section \<open>Credentials (server/auth.ts; the same two functions are repeated in server/routes.ts)\<close>

text \<open>
  \<^verbatim>\<open>buf.toString("hex")\<close> writes two lower-case digits per byte;
  \<^verbatim>\<open>Buffer.from(s, "hex")\<close> reads pairs of digits of either case and stops at the first
  pair that is not hexadecimal (a trailing single character is dropped).
\<close>

definition hexDigit :: "nat \<Rightarrow> char" where
  "hexDigit n = ''0123456789abcdef'' ! n"

definition toHex :: "byte list \<Rightarrow> string" where
  "toHex bs = concat (map (\<lambda>b. [hexDigit (unat b div 16), hexDigit (unat b mod 16)]) bs)"

definition hexVal :: "char \<Rightarrow> nat option" where
  "hexVal c =
     (let n = (of_char c :: nat)
      in if 48 \<le> n \<and> n \<le> 57 then Some (n - 48)
         else if 97 \<le> n \<and> n \<le> 102 then Some (n - 87)
         else if 65 \<le> n \<and> n \<le> 70 then Some (n - 55)
         else None)"

fun fromHex :: "string \<Rightarrow> byte list" where
  "fromHex (a # b # r) =
     (case (hexVal a, hexVal b) of
        (Some x, Some y) \<Rightarrow> of_nat (16 * x + y) # fromHex r
      | _ \<Rightarrow> [])"
| "fromHex _ = []"

text \<open>\<^verbatim>\<open>s.split(".")\<close>: the pieces between the dots; never an empty array.\<close>

fun split :: "char \<Rightarrow> string \<Rightarrow> string list" where
  "split c [] = [[]]"
| "split c (x # xs) =
     (if x = c then [] # split c xs
      else (case split c xs of
              [] \<Rightarrow> [[x]]
            | w # ws \<Rightarrow> (x # w) # ws))"

text \<open>
  \<^verbatim>\<open>crypto.timingSafeEqual\<close> throws a RangeError when the two buffers differ in
  length; \<open>None\<close> is that exception.
\<close>

definition timingSafeEqual :: "byte list \<Rightarrow> byte list \<Rightarrow> bool option" where
  "timingSafeEqual a b = (if length a \<noteq> length b then None else Some (a = b))"

definition hashPassword :: "env \<Rightarrow> string \<Rightarrow> string" where
  "hashPassword e password =
     (let salt = toHex (randomBytes e 16);
          buf = scrypt e password salt 64
      in toHex buf @ ''.'' @ salt)"

text \<open>
  \<^verbatim>\<open>const [hashed, salt] = stored.split(".")\<close>: with no dot in the stored string the
  salt is \<^verbatim>\<open>undefined\<close> and \<^verbatim>\<open>scrypt\<close> throws a TypeError; \<open>None\<close> again.
\<close>

definition comparePasswords :: "env \<Rightarrow> string \<Rightarrow> string \<Rightarrow> bool option" where
  "comparePasswords e supplied stored =
     (case split (CHR ''.'') stored of
        hashed # salt # rest \<Rightarrow>
          (let hashedBuf = fromHex hashed;
               suppliedBuf = scrypt e supplied salt 64
           in timingSafeEqual hashedBuf suppliedBuf)
      | _ \<Rightarrow> None)"

section \<open>Requests, sessions and replies\<close>

text \<open>
  A reply is a status with a payload. \<open>Fail\<close> carries the message of an error reply,
  \<open>Reply\<close> the JSON body of any other one, and \<open>Passed_on\<close> is an exception handed
  to \<^verbatim>\<open>next(error)\<close>, whose handler is outside these sources.

  The session holds the id passport serialised at login (\<^verbatim>\<open>serializeUser\<close>); on each
  request \<^verbatim>\<open>deserializeUser\<close> looks the id up in the store and \<^verbatim>\<open>req.user\<close> is the
  user found, if any. \<^verbatim>\<open>req.isAuthenticated()\<close> holds when \<^verbatim>\<open>req.user\<close> is set.

  A route parameter is the integer \<^verbatim>\<open>parseInt\<close> returned; a parameter that does not
  begin with a number (\<^verbatim>\<open>parseInt\<close> gives \<^verbatim>\<open>NaN\<close>) is not modelled. A request body that went
  through \<^verbatim>\<open>validateRequest\<close> is the outcome of \<^verbatim>\<open>schema.parse\<close>: \<open>Inl\<close> the
  message of the ZodError, \<open>Inr\<close> the parsed data.
\<close>

datatype 'a reply = Fail nat string | Reply nat 'a | Passed_on

type_synonym session = "int option"

definition req_user :: "store \<Rightarrow> session \<Rightarrow> user option" where
  "req_user st sess = (case sess of None \<Rightarrow> None | Some i \<Rightarrow> getUser st i)"

definition isAuthenticated :: "store \<Rightarrow> session \<Rightarrow> (nat \<times> string) + user" where
  "isAuthenticated st sess =
     (case req_user st sess of
        None \<Rightarrow> Inl (401, ''Unauthorized'')
      | Some u \<Rightarrow> Inr u)"

definition isManager :: "store \<Rightarrow> session \<Rightarrow> (nat \<times> string) + user" where
  "isManager st sess =
     (case req_user st sess of
        None \<Rightarrow> Inl (401, ''Unauthorized'')
      | Some u \<Rightarrow>
          if u_role u \<noteq> ''manager'' then Inl (403, ''Forbidden - Manager access required'')
          else Inr u)"

definition isMember :: "store \<Rightarrow> int \<Rightarrow> int \<Rightarrow> bool" where
  "isMember st chitGroupId userId =
     (\<exists>member \<in> set (getChitGroupMembers st chitGroupId). m_userId member = userId)"

section \<open>Routes (server/routes.ts)\<close>

text \<open>
  Each handler takes the environment, the store, the session and its parameters, and
  returns its reply with the store it leaves behind. The checks stand in the order of
  the source. The handlers' \<^verbatim>\<open>catch\<close> blocks answer 500; with the in-memory store
  the only statement that can throw is the password comparison, so that is the only
  place where the 500 appears.
\<close>

subsection \<open>Chit groups\<close>

definition get_chitgroups :: "store \<Rightarrow> session \<Rightarrow> chitGroup list reply \<times> store" where
  "get_chitgroups st sess =
     (case isAuthenticated st sess of
        Inl (code, msg) \<Rightarrow> (Fail code msg, st)
      | Inr user \<Rightarrow>
          if u_role user = ''manager'' then
            (let allChitGroups = getAllChitGroups st;
                 managerChitGroups = filter (\<lambda>g. cg_createdBy g = u_id user) allChitGroups
             in (Reply 200 managerChitGroups, st))
          else (Reply 200 (getChitGroupsByUser st (u_id user)), st))"

definition get_chitgroup :: "store \<Rightarrow> session \<Rightarrow> int \<Rightarrow> chitGroup reply \<times> store" where
  "get_chitgroup st sess chitGroupId =
     (case isAuthenticated st sess of
        Inl (code, msg) \<Rightarrow> (Fail code msg, st)
      | Inr user \<Rightarrow>
          (case getChitGroup st chitGroupId of
             None \<Rightarrow> (Fail 404 ''Chit group not found'', st)
           | Some chitGroup \<Rightarrow>
               if u_role user = ''manager'' then
                 (if cg_createdBy chitGroup \<noteq> u_id user
                  then (Fail 403 (''You can only access chit groups you'' @ [CHR 0x27] @ ''ve created''), st)
                  else (Reply 200 chitGroup, st))
               else
                 (if \<not> isMember st chitGroupId (u_id user)
                  then (Fail 403 ''You are not a member of this chit group'', st)
                  else (Reply 200 chitGroup, st))))"

text \<open>The output of \<^verbatim>\<open>insertChitGroupSchema.partial()\<close>, and the patch it is for the store.\<close>

record chitGroupChanges =
  ucg_name :: "string option"
  ucg_value :: "int option"
  ucg_duration :: "int option"
  ucg_membersCount :: "int option"
  ucg_startDate :: "string option"
  ucg_isActive :: "bool option"

definition chitGroupPatch :: "chitGroupChanges \<Rightarrow> partialChitGroup" where
  "chitGroupPatch d =
     \<lparr> pcg_id = None, pcg_name = ucg_name d, pcg_value = ucg_value d,
       pcg_duration = ucg_duration d, pcg_membersCount = ucg_membersCount d,
       pcg_startDate = ucg_startDate d, pcg_isActive = ucg_isActive d,
       pcg_createdBy = None, pcg_createdAt = None \<rparr>"

definition put_chitgroup ::
  "env \<Rightarrow> store \<Rightarrow> session \<Rightarrow> int \<Rightarrow> string + chitGroupChanges
     \<Rightarrow> chitGroup option reply \<times> store" where
  "put_chitgroup e st sess chitGroupId body =
     (case isManager st sess of
        Inl (code, msg) \<Rightarrow> (Fail code msg, st)
      | Inr user \<Rightarrow>
          (case getChitGroup st chitGroupId of
             None \<Rightarrow> (Fail 404 ''Chit group not found'', st)
           | Some chitGroup \<Rightarrow>
               (case body of
                  Inl error \<Rightarrow> (Fail 400 error, st)
                | Inr data \<Rightarrow>
                    (let (updatedChitGroup, st') =
                           updateChitGroup e st chitGroupId (chitGroupPatch data)
                     in (Reply 200 updatedChitGroup, st')))))"

subsection \<open>Members\<close>

definition post_members ::
  "env \<Rightarrow> store \<Rightarrow> session \<Rightarrow> int \<Rightarrow> string + insertChitGroupMember
     \<Rightarrow> chitGroupMember reply \<times> store" where
  "post_members e st sess chitGroupId body =
     (case isManager st sess of
        Inl (code, msg) \<Rightarrow> (Fail code msg, st)
      | Inr reqUser \<Rightarrow>
          (case getChitGroup st chitGroupId of
             None \<Rightarrow> (Fail 404 ''Chit group not found'', st)
           | Some chitGroup \<Rightarrow>
               (let managerId = u_id reqUser in
                if cg_createdBy chitGroup \<noteq> managerId
                then (Fail 403 (''You can only add members to chit groups you'' @ [CHR 0x27] @ ''ve created''), st)
                else
                  (case body of
                     Inl error \<Rightarrow> (Fail 400 error, st)
                   | Inr data \<Rightarrow>
                       (case getUser st (im_userId data) of
                          None \<Rightarrow> (Fail 404 ''User not found'', st)
                        | Some user \<Rightarrow>
                            if u_role user = ''customer'' \<and> u_managerId user \<noteq> Some managerId
                            then (Fail 403 ''You can only add customers you manage to chit groups'', st)
                            else if isMember st chitGroupId (im_userId data)
                            then (Fail 400 ''User is already a member of this chit group'', st)
                            else
                              (let (member, st') =
                                     addMemberToChitGroup e st
                                       (data\<lparr> im_chitGroupId := chitGroupId \<rparr>)
                               in (Reply 201 member, st')))))))"

subsection \<open>Auctions\<close>

definition post_auctions ::
  "env \<Rightarrow> store \<Rightarrow> session \<Rightarrow> int \<Rightarrow> string + insertAuction \<Rightarrow> auction reply \<times> store" where
  "post_auctions e st sess chitGroupId body =
     (case isManager st sess of
        Inl (code, msg) \<Rightarrow> (Fail code msg, st)
      | Inr user \<Rightarrow>
          (case getChitGroup st chitGroupId of
             None \<Rightarrow> (Fail 404 ''Chit group not found'', st)
           | Some chitGroup \<Rightarrow>
               (case body of
                  Inl error \<Rightarrow> (Fail 400 error, st)
                | Inr data \<Rightarrow>
                    (let (auction, st') =
                           createAuction e st (data\<lparr> ia_chitGroupId := chitGroupId \<rparr>)
                     in (Reply 201 auction, st')))))"

text \<open>The output of \<^verbatim>\<open>insertAuctionSchema.partial()\<close>, and the patch it is for the store.\<close>

record auctionChanges =
  ua_chitGroupId :: "int option"
  ua_auctionDate :: "string option"
  ua_winnerUserId :: "int option option"
  ua_winningBid :: "real option option"
  ua_status :: "string option"
  ua_monthNumber :: "int option"

definition auctionPatch :: "auctionChanges \<Rightarrow> partialAuction" where
  "auctionPatch d =
     \<lparr> pa_id = None, pa_chitGroupId = ua_chitGroupId d, pa_auctionDate = ua_auctionDate d,
       pa_winnerUserId = ua_winnerUserId d, pa_winningBid = ua_winningBid d,
       pa_status = ua_status d, pa_monthNumber = ua_monthNumber d, pa_createdAt = None \<rparr>"

definition put_auction ::
  "store \<Rightarrow> session \<Rightarrow> int \<Rightarrow> string + auctionChanges \<Rightarrow> auction option reply \<times> store" where
  "put_auction st sess auctionId body =
     (case isManager st sess of
        Inl (code, msg) \<Rightarrow> (Fail code msg, st)
      | Inr user \<Rightarrow>
          (case getAuction st auctionId of
             None \<Rightarrow> (Fail 404 ''Auction not found'', st)
           | Some auction \<Rightarrow>
               (case body of
                  Inl error \<Rightarrow> (Fail 400 error, st)
                | Inr data \<Rightarrow>
                    (let (updatedAuction, st') = updateAuction st auctionId (auctionPatch data)
                     in (Reply 200 updatedAuction, st')))))"

subsection \<open>Bids\<close>

text \<open>A bid of the listing: the bid with \<^verbatim>\<open>{ id, name }\<close> of its bidder, or \<^verbatim>\<open>null\<close>.\<close>

definition bidWithUserDetails :: "store \<Rightarrow> bid \<Rightarrow> bid \<times> (int \<times> string) option" where
  "bidWithUserDetails st b =
     (b, case getUser st (b_userId b) of
           None \<Rightarrow> None
         | Some user \<Rightarrow> Some (u_id user, u_name user))"

definition get_bids ::
  "store \<Rightarrow> session \<Rightarrow> int \<Rightarrow> (bid \<times> (int \<times> string) option) list reply \<times> store" where
  "get_bids st sess auctionId =
     (case isAuthenticated st sess of
        Inl (code, msg) \<Rightarrow> (Fail code msg, st)
      | Inr reqUser \<Rightarrow>
          (case getAuction st auctionId of
             None \<Rightarrow> (Fail 404 ''Auction not found'', st)
           | Some auction \<Rightarrow>
               (let bids = getBidsByAuction st auctionId;
                    bidsWithUserDetails = map (bidWithUserDetails st) bids
                in (Reply 200 bidsWithUserDetails, st))))"

definition post_bids ::
  "env \<Rightarrow> store \<Rightarrow> session \<Rightarrow> int \<Rightarrow> string + insertBid \<Rightarrow> bid reply \<times> store" where
  "post_bids e st sess auctionId body =
     (case isAuthenticated st sess of
        Inl (code, msg) \<Rightarrow> (Fail code msg, st)
      | Inr user \<Rightarrow>
          (case getAuction st auctionId of
             None \<Rightarrow> (Fail 404 ''Auction not found'', st)
           | Some auction \<Rightarrow>
               if a_status auction \<noteq> ''scheduled''
               then (Fail 400 ''Cannot place bid on a completed or cancelled auction'', st)
               else if u_role user = ''customer''
                       \<and> \<not> isMember st (a_chitGroupId auction) (u_id user)
               then (Fail 403 ''You are not a member of this chit group'', st)
               else
                 (case body of
                    Inl error \<Rightarrow> (Fail 400 error, st)
                  | Inr data \<Rightarrow>
                      (let (bid, st') =
                             createBid e st
                               (data\<lparr> ib_auctionId := auctionId, ib_userId := u_id user \<rparr>)
                       in (Reply 201 bid, st')))))"

subsection \<open>Payments\<close>

text \<open>The rupee sign of the message, as its three UTF-8 bytes.\<close>

definition paymentMessage :: "env \<Rightarrow> insertPayment \<Rightarrow> chitGroup \<Rightarrow> string" where
  "paymentMessage e data chitGroup =
     ''Your payment of '' @ [CHR 0xE2, CHR 0x82, CHR 0xB9]
       @ numberToString e (ip_amount data)
       @ '' for '' @ cg_name chitGroup
       @ '', month '' @ numberToString e (of_int (ip_monthNumber data))
       @ '' has been recorded as '' @ ip_status data @ ''.''"

definition post_payments ::
  "env \<Rightarrow> store \<Rightarrow> session \<Rightarrow> string + insertPayment \<Rightarrow> payment reply \<times> store" where
  "post_payments e st sess body =
     (case isManager st sess of
        Inl (code, msg) \<Rightarrow> (Fail code msg, st)
      | Inr reqUser \<Rightarrow>
          (case body of
             Inl error \<Rightarrow> (Fail 400 error, st)
           | Inr data \<Rightarrow>
               (case getChitGroup st (ip_chitGroupId data) of
                  None \<Rightarrow> (Fail 404 ''Chit group not found'', st)
                | Some chitGroup \<Rightarrow>
                    (case getUser st (ip_userId data) of
                       None \<Rightarrow> (Fail 404 ''User not found'', st)
                     | Some user \<Rightarrow>
                         if \<not> isMember st (ip_chitGroupId data) (ip_userId data)
                         then (Fail 400 ''User is not a member of this chit group'', st)
                         else
                           (let (payment, st1) = createPayment e st data;
                                (notification, st2) =
                                  createNotification e st1
                                    \<lparr> in_userId = ip_userId data,
                                      in_message = paymentMessage e data chitGroup,
                                      in_type = ''payment'' \<rparr>
                            in (Reply 201 payment, st2))))))"

subsection \<open>Password reset\<close>

definition passwordPatch :: "string \<Rightarrow> partialUser" where
  "passwordPatch hashed =
     \<lparr> pu_id = None, pu_username = None, pu_password = Some hashed, pu_phone = None,
       pu_name = None, pu_email = None, pu_role = None, pu_isFirstLogin = Some False,
       pu_managerId = None, pu_createdAt = None \<rparr>"

text \<open>
  \<^verbatim>\<open>POST /api/users/:userId/reset-password\<close> is registered without any middleware. The
  two passwords are read from the body as they are: \<open>None\<close> is a missing key, and a
  missing key, an empty string and the user id 0 are all falsy.
\<close>

definition post_users_reset_password ::
  "env \<Rightarrow> store \<Rightarrow> session \<Rightarrow> int \<Rightarrow> string option \<Rightarrow> string option
     \<Rightarrow> string reply \<times> store" where
  "post_users_reset_password e st sess userId currentPassword newPassword =
     (case (currentPassword, newPassword) of
        (Some current, Some new) \<Rightarrow>
          if userId = 0 \<or> current = [] \<or> new = []
          then (Fail 400 ''Missing required fields'', st)
          else
            (case getUser st userId of
               None \<Rightarrow> (Fail 404 ''User not found'', st)
             | Some user \<Rightarrow>
                 (case comparePasswords e current (u_password user) of
                    None \<Rightarrow> (Fail 500 ''Failed to update password'', st)
                  | Some passwordCorrect \<Rightarrow>
                      if \<not> passwordCorrect
                      then (Fail 400 ''Current password is incorrect'', st)
                      else
                        (let (updated, st') =
                               updateUser st userId (passwordPatch (hashPassword e new))
                         in (Reply 200 ''Password updated successfully'', st'))))
      | _ \<Rightarrow> (Fail 400 ''Missing required fields'', st))"

text \<open>
  \<^verbatim>\<open>POST /api/reset-password\<close> (server/auth.ts) works on the session's user and reads
  \<^verbatim>\<open>newPassword\<close> only. Without that key \<^verbatim>\<open>scrypt\<close> throws and the error goes to
  \<^verbatim>\<open>next\<close>.
\<close>

definition post_reset_password ::
  "env \<Rightarrow> store \<Rightarrow> session \<Rightarrow> string option \<Rightarrow> user option reply \<times> store" where
  "post_reset_password e st sess newPassword =
     (case req_user st sess of
        None \<Rightarrow> (Fail 401 ''Not authenticated'', st)
      | Some user \<Rightarrow>
          (case newPassword of
             None \<Rightarrow> (Passed_on, st)
           | Some new \<Rightarrow>
               (let hashedPassword = hashPassword e new;
                    (updatedUser, st') = updateUser st (u_id user) (passwordPatch hashedPassword)
                in (Reply 200 updatedUser, st'))))"

section \<open>The shape of a store the constructor and the operations produce\<close>

text \<open>
  A \<^verbatim>\<open>Map\<close> has each key once. Every record is stored under its own id, the ids are
  positive (the counters start at 1) and below the counter of their kind. \<open>keyed\<close>
  says so for one map, \<open>store_ok\<close> for all seven.
\<close>

definition keyed :: "('v \<Rightarrow> int) \<Rightarrow> (int \<times> 'v) list \<Rightarrow> int \<Rightarrow> bool" where
  "keyed ident al counter \<longleftrightarrow>
     0 < counter \<and> distinct (map fst al)
     \<and> (\<forall>(k, v) \<in> set al. ident v = k \<and> 0 < k \<and> k < counter)"

definition store_ok :: "store \<Rightarrow> bool" where
  "store_ok st \<longleftrightarrow>
     keyed u_id (users st) (userIdCounter st)
     \<and> keyed cg_id (chitGroups st) (chitGroupIdCounter st)
     \<and> keyed m_id (chitGroupMembers st) (chitGroupMemberIdCounter st)
     \<and> keyed a_id (auctions st) (auctionIdCounter st)
     \<and> keyed b_id (bids st) (bidIdCounter st)
     \<and> keyed p_id (payments st) (paymentIdCounter st)
     \<and> keyed n_id (notifications st) (notificationIdCounter st)"

section \<open>A worked scenario\<close>

text \<open>
  The scenario of the specification, run on the code: two managers (ids 1 and 2) and
  two customers of manager 1 (ids 3 and 4) are created with \<^verbatim>\<open>storage.createUser\<close>;
  manager 1 creates the group Gold (id 1), enrols customer 3 and schedules the auction
  of month 1 (id 1). The environment is a small concrete one: its key derivation pads
  or cuts the bytes of password and salt to the key length, and every random byte is 7.
  \<open>laterEnv\<close> is the same environment at a later request, where every random byte is 9.
\<close>

definition demoEnv :: env where
  "demoEnv =
     \<lparr> now = 1700000000000,
       toISODate = Some,
       scrypt = (\<lambda>password salt keylen.
                  take keylen (map (\<lambda>c. of_nat (of_char c)) (password @ salt)
                               @ replicate keylen 0)),
       randomBytes = (\<lambda>n. replicate n 7),
       numberToString = (\<lambda>x. ''n'') \<rparr>"

definition laterEnv :: env where
  "laterEnv = demoEnv\<lparr> now := 1700000060000, randomBytes := (\<lambda>n. replicate n 9) \<rparr>"

definition demoHash :: string where
  "demoHash = hashPassword demoEnv ''temp''"

definition demoUser :: "string \<Rightarrow> string \<Rightarrow> int option \<Rightarrow> insertUser" where
  "demoUser n r m =
     \<lparr> iu_username = n, iu_password = demoHash, iu_phone = ''98400'',
       iu_name = n, iu_email = None, iu_role = r, iu_isFirstLogin = Some True,
       iu_managerId = map_option Some m \<rparr>"

definition demoStore :: store where
  "demoStore =
     (let s1 = snd (createUser demoEnv newMemStorage (demoUser ''asha'' ''manager'' None));
          s2 = snd (createUser demoEnv s1 (demoUser ''bala'' ''manager'' None));
          s3 = snd (createUser demoEnv s2 (demoUser ''chitra'' ''customer'' (Some 1)));
          s4 = snd (createUser demoEnv s3 (demoUser ''dev'' ''customer'' (Some 1)));
          s5 = snd (createChitGroup demoEnv s4
                      \<lparr> icg_name = ''Gold'', icg_value = 100000, icg_duration = 10,
                        icg_membersCount = 5, icg_startDate = ''2024-01-01'',
                        icg_isActive = None, icg_createdBy = Some 1 \<rparr>);
          s6 = snd (post_members demoEnv s5 (Some 1) 1
                      (Inr \<lparr> im_chitGroupId = 1, im_userId = 3,
                             im_joinDate = ''2024-01-05'' \<rparr>));
          s7 = snd (post_auctions demoEnv s6 (Some 1) 1
                      (Inr \<lparr> ia_chitGroupId = 1, ia_auctionDate = ''2024-02-01'',
                             ia_winnerUserId = None, ia_winningBid = None,
                             ia_status = ''scheduled'', ia_monthNumber = 1 \<rparr>))
      in s7)"

text \<open>Manager 1 completes the auction: winner customer 3, winning bid 95000.\<close>

definition completedStore :: store where
  "completedStore =
     snd (put_auction demoStore (Some 1) 1
            (Inr \<lparr> ua_chitGroupId = None, ua_auctionDate = None,
                   ua_winnerUserId = Some (Some 3), ua_winningBid = Some (Some 95000),
                   ua_status = Some ''completed'', ua_monthNumber = None \<rparr>))"

text \<open>Customer 3, the member, bids 90000 on the scheduled auction.\<close>

definition bidStore :: store where
  "bidStore =
     snd (post_bids demoEnv demoStore (Some 3) 1
            (Inr \<lparr> ib_auctionId = 1, ib_userId = 3, ib_bidAmount = 90000 \<rparr>))"

text \<open>
  Request bodies of the scenario: a bid of 90000, the payment of month 1 by customer 3,
  and the enrolment of customer 4; \<open>enrolledStore\<close> is the store after manager 1
  enrolled customer 4.
\<close>

definition demoBid :: insertBid where
  "demoBid = \<lparr> ib_auctionId = 1, ib_userId = 3, ib_bidAmount = 90000 \<rparr>"

definition demoPayment :: insertPayment where
  "demoPayment =
     \<lparr> ip_chitGroupId = 1, ip_userId = 3, ip_amount = 10000, ip_paymentDate = ''2024-02-05'',
       ip_monthNumber = 1, ip_status = ''paid'' \<rparr>"

definition demoMember :: insertChitGroupMember where
  "demoMember = \<lparr> im_chitGroupId = 1, im_userId = 4, im_joinDate = ''2024-01-06'' \<rparr>"

definition enrolledStore :: store where
  "enrolledStore = snd (post_members demoEnv demoStore (Some 1) 1 (Inr demoMember))"

text \<open>
  Bodies for the auction routes: an update that sets the status back to
  \<^verbatim>\<open>scheduled\<close>, an update that sets it to \<^verbatim>\<open>completed\<close> and nothing else, and a
  new auction that is \<^verbatim>\<open>completed\<close> from the start, without winner fields.
\<close>

definition reopen :: auctionChanges where
  "reopen =
     \<lparr> ua_chitGroupId = None, ua_auctionDate = None, ua_winnerUserId = None,
       ua_winningBid = None, ua_status = Some ''scheduled'', ua_monthNumber = None \<rparr>"

definition completeOnly :: auctionChanges where
  "completeOnly = reopen\<lparr> ua_status := Some ''completed'' \<rparr>"

definition completedAtBirth :: insertAuction where
  "completedAtBirth =
     \<lparr> ia_chitGroupId = 1, ia_auctionDate = ''2024-03-01'', ia_winnerUserId = None,
       ia_winningBid = None, ia_status = ''completed'', ia_monthNumber = 2 \<rparr>"

text \<open>
  A body for \<^verbatim>\<open>PUT /api/chitgroups/:id\<close> that renames the group, and the store after
  customer 3 replaced the temporary password \<^verbatim>\<open>temp\<close> by \<^verbatim>\<open>fresh\<close>.
\<close>

definition rename :: chitGroupChanges where
  "rename =
     \<lparr> ucg_name = Some ''Taken over'', ucg_value = None, ucg_duration = None,
       ucg_membersCount = None, ucg_startDate = None, ucg_isActive = None \<rparr>"

definition resetStore :: store where
  "resetStore =
     snd (post_users_reset_password laterEnv demoStore None 3 (Some ''temp'') (Some ''fresh''))"

section \<open>Lemmas on the building blocks\<close>

subsection \<open>Hexadecimal text and the stored credential\<close>

lemma hexVal_hexDigit: "n < 16 \<Longrightarrow> hexVal (hexDigit n) = Some n"
proof -
  assume "n < 16"
  then have "n \<in> {0,1,2,3,4,5,6,7,8,9,10,11,12,13,14,15}" by simp presburger
  then show ?thesis
    by (auto simp: hexVal_def hexDigit_def)
qed

lemma hexDigit_not_dot: "n < 16 \<Longrightarrow> hexDigit n \<noteq> CHR ''.''"
proof -
  assume "n < 16"
  then have "n \<in> {0,1,2,3,4,5,6,7,8,9,10,11,12,13,14,15}" by simp presburger
  then show ?thesis
    by (auto simp: hexDigit_def)
qed

lemma byte_nibbles: "unat (b :: byte) div 16 < 16" "unat b mod 16 < 16"
proof -
  have "unat b < 256" using unsigned_less [of b] by simp
  then show "unat b div 16 < 16" by simp
  show "unat b mod 16 < 16" by simp
qed

lemma fromHex_toHex: "fromHex (toHex bs) = bs"
proof (induction bs)
  case Nil
  show ?case by (simp add: toHex_def)
next
  case (Cons b bs)
  have "(of_nat (16 * (unat b div 16) + unat b mod 16) :: byte) = b"
    by simp
  with Cons show ?case
    by (simp add: toHex_def hexVal_hexDigit byte_nibbles)
qed

lemma dot_notin_toHex: "CHR ''.'' \<notin> set (toHex bs)"
proof (induction bs)
  case Nil
  show ?case by (simp add: toHex_def)
next
  case (Cons b bs)
  have "hexDigit (unat b div 16) \<noteq> CHR ''.''" "hexDigit (unat b mod 16) \<noteq> CHR ''.''"
    by (simp_all add: hexDigit_not_dot byte_nibbles)
  with Cons show ?case
    by (auto simp: toHex_def)
qed

lemma split_no_sep: "c \<notin> set s \<Longrightarrow> split c s = [s]"
  by (induction s) auto

lemma split_append: "c \<notin> set a \<Longrightarrow> split c (a @ c # b) = a # split c b"
  by (induction a) auto

text \<open>
  Comparing a password with a credential that \<open>hashPassword\<close> wrote comes down to
  comparing the two derived keys under the credential's salt.
\<close>

lemma comparePasswords_hashPassword:
  "comparePasswords e' supplied (hashPassword e password) =
     timingSafeEqual (scrypt e password (toHex (randomBytes e 16)) 64)
       (scrypt e' supplied (toHex (randomBytes e 16)) 64)"
  by (simp add: comparePasswords_def hashPassword_def Let_def split_append split_no_sep
      dot_notin_toHex fromHex_toHex)

subsection \<open>Association lists\<close>

lemma update_fresh: "k \<notin> fst ` set al \<Longrightarrow> AList.update k v al = al @ [(k, v)]"
  by (induction al) auto

lemma update_present_set:
  "distinct (map fst al) \<Longrightarrow> map_of al k = Some old \<Longrightarrow>
     set (AList.update k v al) = insert (k, v) (set al - {(k, old)})"
  by (induction al) (auto simp: rev_image_eqI)

lemma keyed_fresh: "keyed f al c \<Longrightarrow> c \<notin> fst ` set al"
  by (auto simp: keyed_def)

lemma keyed_lookup: "keyed f al c \<Longrightarrow> map_of al k = Some v \<Longrightarrow> f v = k \<and> 0 < k \<and> k < c"
  by (auto simp: keyed_def dest: map_of_SomeD)

lemma keyed_create:
  assumes "keyed f al c" "f v = c"
  shows "keyed f (AList.update c v al) (c + 1)"
proof -
  have "c \<notin> fst ` set al" using assms(1) by (rule keyed_fresh)
  then have "AList.update c v al = al @ [(c, v)]" by (rule update_fresh)
  moreover have "keyed f (al @ [(c, v)]) (c + 1)"
    using assms \<open>c \<notin> fst ` set al\<close> by (fastforce simp: keyed_def)
  ultimately show ?thesis by simp
qed

lemma keyed_replace:
  assumes "keyed f al c" "map_of al k = Some old" "f v = k"
  shows "keyed f (AList.update k v al) c"
proof -
  have d: "distinct (map fst al)" using assms(1) by (simp add: keyed_def)
  have k: "0 < k \<and> k < c" using keyed_lookup [OF assms(1,2)] by simp
  have "set (AList.update k v al) = insert (k, v) (set al - {(k, old)})"
    using d assms(2) by (rule update_present_set)
  then show ?thesis
    using assms(1,3) d k by (auto simp: keyed_def distinct_update)
qed

lemma keyed_delete:
  assumes "keyed f al c"
  shows "keyed f (AList.delete k al) c"
proof -
  have "distinct (map fst (AList.delete k al))"
    using assms by (simp add: keyed_def distinct_delete)
  moreover have "set (AList.delete k al) \<subseteq> set al"
    by (auto simp: AList.delete_eq)
  ultimately show ?thesis
    using assms by (auto simp: keyed_def)
qed

lemma keyed_empty: "keyed f [] 1"
  by (simp add: keyed_def)

subsection \<open>The store operations keep the shape\<close>

lemma store_ok_new: "store_ok newMemStorage"
  by (simp add: store_ok_def newMemStorage_def keyed_empty)

lemma createUser_ok: "store_ok st \<Longrightarrow> store_ok (snd (createUser e st d))"
  by (simp add: store_ok_def createUser_def Let_def keyed_create)

lemma createChitGroup_ok: "store_ok st \<Longrightarrow> store_ok (snd (createChitGroup e st d))"
  by (simp add: store_ok_def createChitGroup_def Let_def keyed_create)

lemma addMemberToChitGroup_ok: "store_ok st \<Longrightarrow> store_ok (snd (addMemberToChitGroup e st d))"
  by (simp add: store_ok_def addMemberToChitGroup_def Let_def keyed_create)

lemma removeMemberFromChitGroup_ok:
  "store_ok st \<Longrightarrow> store_ok (snd (removeMemberFromChitGroup st g u))"
  by (simp add: store_ok_def removeMemberFromChitGroup_def keyed_delete split: option.splits)

lemma createAuction_ok: "store_ok st \<Longrightarrow> store_ok (snd (createAuction e st d))"
  by (simp add: store_ok_def createAuction_def Let_def keyed_create)

lemma createBid_ok: "store_ok st \<Longrightarrow> store_ok (snd (createBid e st d))"
  by (simp add: store_ok_def createBid_def Let_def keyed_create)

lemma createPayment_ok: "store_ok st \<Longrightarrow> store_ok (snd (createPayment e st d))"
  by (simp add: store_ok_def createPayment_def Let_def keyed_create)

lemma createNotification_ok: "store_ok st \<Longrightarrow> store_ok (snd (createNotification e st d))"
  by (simp add: store_ok_def createNotification_def Let_def keyed_create)

lemma updateUser_ok:
  assumes "store_ok st" "pu_id d = None"
  shows "store_ok (snd (updateUser st i d))"
proof (cases "map_of (users st) i")
  case None
  then show ?thesis using assms(1) by (simp add: updateUser_def)
next
  case (Some u)
  have k: "keyed u_id (users st) (userIdCounter st)"
    using assms(1) by (simp add: store_ok_def)
  have "u_id (mergeUser u d) = i"
    using keyed_lookup [OF k Some] assms(2) by (simp add: mergeUser_def spread_def)
  then have "keyed u_id (AList.update i (mergeUser u d) (users st)) (userIdCounter st)"
    by (rule keyed_replace [OF k Some])
  then show ?thesis
    using assms(1) Some by (simp add: updateUser_def Let_def store_ok_def)
qed

lemma updateChitGroup_ok:
  assumes "store_ok st" "pcg_id d = None"
  shows "store_ok (snd (updateChitGroup e st i d))"
proof (cases "map_of (chitGroups st) i")
  case None
  then show ?thesis using assms(1) by (simp add: updateChitGroup_def)
next
  case (Some g)
  have k: "keyed cg_id (chitGroups st) (chitGroupIdCounter st)"
    using assms(1) by (simp add: store_ok_def)
  have "\<And>d'. pcg_id d' = None \<Longrightarrow>
          keyed cg_id (AList.update i (mergeChitGroup g d') (chitGroups st))
            (chitGroupIdCounter st)"
  proof -
    fix d' :: partialChitGroup
    assume "pcg_id d' = None"
    then have "cg_id (mergeChitGroup g d') = i"
      using keyed_lookup [OF k Some] by (simp add: mergeChitGroup_def spread_def)
    then show "keyed cg_id (AList.update i (mergeChitGroup g d') (chitGroups st))
                 (chitGroupIdCounter st)"
      by (rule keyed_replace [OF k Some])
  qed
  then show ?thesis
    using assms Some
    by (simp add: updateChitGroup_def Let_def store_ok_def split: option.splits)
qed

lemma updateAuction_ok:
  assumes "store_ok st" "pa_id d = None"
  shows "store_ok (snd (updateAuction st i d))"
proof (cases "map_of (auctions st) i")
  case None
  then show ?thesis using assms(1) by (simp add: updateAuction_def)
next
  case (Some a)
  have k: "keyed a_id (auctions st) (auctionIdCounter st)"
    using assms(1) by (simp add: store_ok_def)
  have "a_id (mergeAuction a d) = i"
    using keyed_lookup [OF k Some] assms(2) by (simp add: mergeAuction_def spread_def)
  then have "keyed a_id (AList.update i (mergeAuction a d) (auctions st)) (auctionIdCounter st)"
    by (rule keyed_replace [OF k Some])
  then show ?thesis
    using assms(1) Some by (simp add: updateAuction_def Let_def store_ok_def)
qed

subsection \<open>The routes keep the shape\<close>

text \<open>
  Whatever the session and the body, each handler that writes leaves a store of the
  shape \<open>store_ok\<close>: the patches the handlers build never carry an \<^verbatim>\<open>id\<close>.
\<close>

lemma put_chitgroup_ok:
  assumes "store_ok st"
  shows "store_ok (snd (put_chitgroup e st sess g body))"
proof -
  have "store_ok s" if "updateChitGroup e st g (chitGroupPatch d) = (a, s)" for d a s
    using updateChitGroup_ok [OF assms, of "chitGroupPatch d" e g] that
    by (simp add: chitGroupPatch_def)
  then show ?thesis
    using assms
    by (auto simp: put_chitgroup_def split: sum.splits option.splits prod.splits)
qed

lemma post_members_ok:
  assumes "store_ok st"
  shows "store_ok (snd (post_members e st sess g body))"
proof -
  have "store_ok s" if "addMemberToChitGroup e st d = (a, s)" for d a s
    using addMemberToChitGroup_ok [OF assms, of e d] that by simp
  then show ?thesis
    using assms
    by (auto simp: post_members_def Let_def split: sum.splits option.splits prod.splits)
qed

lemma post_auctions_ok:
  assumes "store_ok st"
  shows "store_ok (snd (post_auctions e st sess g body))"
proof -
  have "store_ok s" if "createAuction e st d = (a, s)" for d a s
    using createAuction_ok [OF assms, of e d] that by simp
  then show ?thesis
    using assms
    by (auto simp: post_auctions_def split: sum.splits option.splits prod.splits)
qed

lemma put_auction_ok:
  assumes "store_ok st"
  shows "store_ok (snd (put_auction st sess i body))"
proof -
  have "store_ok s" if "updateAuction st i (auctionPatch d) = (a, s)" for d a s
    using updateAuction_ok [OF assms, of "auctionPatch d" i] that
    by (simp add: auctionPatch_def)
  then show ?thesis
    using assms
    by (auto simp: put_auction_def split: sum.splits option.splits prod.splits)
qed

lemma post_bids_ok:
  assumes "store_ok st"
  shows "store_ok (snd (post_bids e st sess i body))"
proof -
  have "store_ok s" if "createBid e st d = (a, s)" for d a s
    using createBid_ok [OF assms, of e d] that by simp
  then show ?thesis
    using assms
    by (auto simp: post_bids_def split: sum.splits option.splits prod.splits)
qed

lemma post_payments_ok:
  assumes "store_ok st"
  shows "store_ok (snd (post_payments e st sess body))"
proof -
  have "store_ok s2"
    if "createPayment e st d = (a, s1)" "createNotification e s1 n = (b, s2)" for d a s1 n b s2
    using createNotification_ok [OF createPayment_ok [OF assms, of e d], of e n] that by simp
  then show ?thesis
    using assms
    by (auto simp: post_payments_def Let_def split: sum.splits option.splits prod.splits)
qed

lemma post_users_reset_password_ok:
  assumes "store_ok st"
  shows "store_ok (snd (post_users_reset_password e st sess userId currentPassword newPassword))"
proof -
  have "store_ok s" if "updateUser st userId (passwordPatch h) = (a, s)" for h a s
    using updateUser_ok [OF assms, of "passwordPatch h" userId] that
    by (simp add: passwordPatch_def)
  then show ?thesis
    using assms
    by (auto simp: post_users_reset_password_def Let_def
        split: option.splits prod.splits)
qed

lemma post_reset_password_ok:
  assumes "store_ok st"
  shows "store_ok (snd (post_reset_password e st sess newPassword))"
proof -
  have "store_ok s" if "updateUser st i (passwordPatch h) = (a, s)" for i h a s
    using updateUser_ok [OF assms, of "passwordPatch h" i] that
    by (simp add: passwordPatch_def)
  then show ?thesis
    using assms
    by (auto simp: post_reset_password_def Let_def split: option.splits prod.splits)
qed

subsection \<open>The scenario, evaluated\<close>

lemma demoStore_eq:
  "demoStore =
     \<lparr> users =
         [(1, \<lparr> u_id = 1, u_username = ''asha'', u_password = demoHash,
                u_phone = ''98400'', u_name = ''asha'', u_email = None, u_role = ''manager'',
                u_isFirstLogin = True, u_managerId = None, u_createdAt = 1700000000000 \<rparr>),
          (2, \<lparr> u_id = 2, u_username = ''bala'', u_password = demoHash,
                u_phone = ''98400'', u_name = ''bala'', u_email = None, u_role = ''manager'',
                u_isFirstLogin = True, u_managerId = None, u_createdAt = 1700000000000 \<rparr>),
          (3, \<lparr> u_id = 3, u_username = ''chitra'', u_password = demoHash,
                u_phone = ''98400'', u_name = ''chitra'', u_email = None,
                u_role = ''customer'', u_isFirstLogin = True, u_managerId = Some 1,
                u_createdAt = 1700000000000 \<rparr>),
          (4, \<lparr> u_id = 4, u_username = ''dev'', u_password = demoHash,
                u_phone = ''98400'', u_name = ''dev'', u_email = None,
                u_role = ''customer'', u_isFirstLogin = True, u_managerId = Some 1,
                u_createdAt = 1700000000000 \<rparr>)],
       chitGroups =
         [(1, \<lparr> cg_id = 1, cg_name = ''Gold'', cg_value = 100000, cg_duration = 10,
                cg_membersCount = 5, cg_startDate = ''2024-01-01'', cg_isActive = True,
                cg_createdBy = 1, cg_createdAt = 1700000000000 \<rparr>)],
       chitGroupMembers =
         [(1, \<lparr> m_id = 1, m_chitGroupId = 1, m_userId = 3, m_joinDate = ''2024-01-05'',
                m_createdAt = 1700000000000 \<rparr>)],
       auctions =
         [(1, \<lparr> a_id = 1, a_chitGroupId = 1, a_auctionDate = ''2024-02-01'',
                a_winnerUserId = None, a_winningBid = None, a_status = ''scheduled'',
                a_monthNumber = 1, a_createdAt = 1700000000000 \<rparr>)],
       bids = [], payments = [], notifications = [],
       userIdCounter = 5, chitGroupIdCounter = 2, chitGroupMemberIdCounter = 2,
       auctionIdCounter = 2, bidIdCounter = 1, paymentIdCounter = 1,
       notificationIdCounter = 1 \<rparr>"
  by code_simp

lemma completedStore_eq:
  "completedStore =
     demoStore\<lparr> auctions :=
         [(1, \<lparr> a_id = 1, a_chitGroupId = 1, a_auctionDate = ''2024-02-01'',
                a_winnerUserId = Some 3, a_winningBid = Some 95000, a_status = ''completed'',
                a_monthNumber = 1, a_createdAt = 1700000000000 \<rparr>)] \<rparr>"
  by code_simp

subsection \<open>Definitions to unfold when a request is evaluated\<close>

lemmas store_defs =
  getUser_def getChitGroup_def getAllChitGroups_def getChitGroupsByUser_def
  getChitGroupMembers_def getAuction_def getBidsByAuction_def
  createUser_def updateUser_def mergeUser_def createChitGroup_def updateChitGroup_def
  mergeChitGroup_def addMemberToChitGroup_def createAuction_def updateAuction_def
  mergeAuction_def createBid_def createPayment_def createNotification_def spread_def
  Let_def

lemmas route_defs =
  req_user_def isAuthenticated_def isManager_def isMember_def
  get_chitgroups_def get_chitgroup_def put_chitgroup_def chitGroupPatch_def
  post_members_def post_auctions_def put_auction_def auctionPatch_def
  get_bids_def bidWithUserDetails_def post_bids_def post_payments_def paymentMessage_def
  post_users_reset_password_def post_reset_password_def passwordPatch_def

lemma bidStore_eq:
  "bidStore =
     demoStore\<lparr> bids :=
         [(1, \<lparr> b_id = 1, b_auctionId = 1, b_userId = 3, b_bidAmount = 90000,
              b_bidTime = 1700000000000, b_createdAt = 1700000000000 \<rparr>)],
       bidIdCounter := 2 \<rparr>"
  by (simp add: bidStore_def demoStore_eq demoEnv_def store_defs route_defs)

lemma demoStore_ok: "store_ok demoStore"
  by (simp add: demoStore_eq store_ok_def keyed_def)

subsection \<open>Middleware and lookups\<close>

lemma isAuthenticated_iff:
  "isAuthenticated st sess = Inr u \<longleftrightarrow> req_user st sess = Some u"
  by (simp add: isAuthenticated_def split: option.splits)

lemma isManager_iff:
  "isManager st sess = Inr u \<longleftrightarrow> req_user st sess = Some u \<and> u_role u = ''manager''"
  by (auto simp: isManager_def split: option.splits)

lemma keyed_map_of:
  "keyed f al c \<Longrightarrow> map_of al k = Some v \<longleftrightarrow> (k, v) \<in> set al"
  by (simp add: keyed_def)

lemma set_map_filter: "set (List.map_filter f xs) = {y. \<exists>x \<in> set xs. f x = Some y}"
  by (induction xs) (auto split: option.splits)

lemma set_getChitGroupsByUser:
  assumes "keyed cg_id (chitGroups st) (chitGroupIdCounter st)"
  shows "set (getChitGroupsByUser st userId) =
           {g \<in> snd ` set (chitGroups st).
              \<exists>m \<in> snd ` set (chitGroupMembers st). m_chitGroupId m = cg_id g \<and> m_userId m = userId}"
    (is "?L = ?R")
proof
  have a: "\<And>k g. map_of (chitGroups st) k = Some g \<longleftrightarrow> (k, g) \<in> set (chitGroups st)"
    using assms by (rule keyed_map_of)
  have b: "\<And>k g. (k, g) \<in> set (chitGroups st) \<Longrightarrow> cg_id g = k"
    using assms by (auto simp: keyed_def)
  show "?L \<subseteq> ?R"
  proof
    fix g assume "g \<in> ?L"
    then obtain m where m: "m \<in> snd ` set (chitGroupMembers st)" "m_userId m = userId"
        "(m_chitGroupId m, g) \<in> set (chitGroups st)"
      by (auto simp: getChitGroupsByUser_def set_map_filter a)
    then have "cg_id g = m_chitGroupId m" using b by simp
    with m show "g \<in> ?R" by force
  qed
  show "?R \<subseteq> ?L"
  proof
    fix g assume "g \<in> ?R"
    then obtain k m where g: "(k, g) \<in> set (chitGroups st)"
        and m: "m \<in> snd ` set (chitGroupMembers st)" "m_chitGroupId m = cg_id g"
          "m_userId m = userId"
      by fastforce
    from g have "cg_id g = k" by (rule b)
    with g m have "map_of (chitGroups st) (m_chitGroupId m) = Some g" by (simp add: a)
    with m show "g \<in> ?L"
      by (auto simp: getChitGroupsByUser_def set_map_filter)
  qed
qed

lemma update_mem: "(k, v) \<in> set (AList.update k v al)"
  by (induction al) auto

lemma filter_update_unmatched:
  "\<forall>x \<in> snd ` set al. \<not> P x \<Longrightarrow> P v \<Longrightarrow> filter P (map snd (AList.update k v al)) = [v]"
  by (induction al) auto

lemma req_user_frame: "users st' = users st \<Longrightarrow> req_user st' sess = req_user st sess"
  by (cases sess) (simp_all add: req_user_def getUser_def)

lemma isManager_frame: "users st' = users st \<Longrightarrow> isManager st' sess = isManager st sess"
  using req_user_frame [of st' st sess] by (simp add: isManager_def)

lemma isAuthenticated_frame:
  "users st' = users st \<Longrightarrow> isAuthenticated st' sess = isAuthenticated st sess"
  using req_user_frame [of st' st sess] by (simp add: isAuthenticated_def)

subsection \<open>What an accepted request has passed\<close>

lemma post_members_success:
  assumes "post_members e st sess g (Inr d) = (Reply 201 member, st')"
  shows "\<exists>manager cg u.
           isManager st sess = Inr manager \<and> getChitGroup st g = Some cg
           \<and> cg_createdBy cg = u_id manager \<and> getUser st (im_userId d) = Some u
           \<and> \<not> (u_role u = ''customer'' \<and> u_managerId u \<noteq> Some (u_id manager))
           \<and> \<not> isMember st g (im_userId d)
           \<and> member = \<lparr> m_id = chitGroupMemberIdCounter st, m_chitGroupId = g,
                         m_userId = im_userId d, m_joinDate = im_joinDate d,
                         m_createdAt = now e \<rparr>
           \<and> st' = st\<lparr> chitGroupMembers :=
                          AList.update (chitGroupMemberIdCounter st) member (chitGroupMembers st),
                        chitGroupMemberIdCounter := chitGroupMemberIdCounter st + 1 \<rparr>"
  using assms
  by (auto simp: post_members_def addMemberToChitGroup_def Let_def
      split: sum.splits option.splits if_splits)

lemma post_bids_success:
  assumes "post_bids e st sess i (Inr d) = (Reply 201 b, st')"
  shows "\<exists>u a. req_user st sess = Some u \<and> getAuction st i = Some a
           \<and> a_status a = ''scheduled''
           \<and> (u_role u = ''customer'' \<longrightarrow> isMember st (a_chitGroupId a) (u_id u))
           \<and> b = \<lparr> b_id = bidIdCounter st, b_auctionId = i, b_userId = u_id u,
                    b_bidAmount = ib_bidAmount d, b_bidTime = now e, b_createdAt = now e \<rparr>
           \<and> b_auctionId b = i \<and> b_userId b = u_id u
           \<and> st' = st\<lparr> bids := AList.update (bidIdCounter st) b (bids st),
                        bidIdCounter := bidIdCounter st + 1 \<rparr>"
  using assms
  by (auto simp: post_bids_def isAuthenticated_def createBid_def Let_def
      split: sum.splits option.splits if_splits)

lemma post_bids_accepted:
  assumes "req_user st sess = Some u" "getAuction st i = Some a" "a_status a = ''scheduled''"
    "u_role u = ''customer'' \<longrightarrow> isMember st (a_chitGroupId a) (u_id u)"
  shows "\<exists>b st'. post_bids e st sess i (Inr d) = (Reply 201 b, st')"
  using assms
  by (auto simp: post_bids_def isAuthenticated_def createBid_def Let_def)

lemma put_auction_accepted:
  assumes "isManager st sess = Inr manager" "getAuction st i = Some a"
  shows "put_auction st sess i (Inr d) =
           (Reply 200 (Some (mergeAuction a (auctionPatch d))),
            st\<lparr> auctions := AList.update i (mergeAuction a (auctionPatch d)) (auctions st) \<rparr>)"
  using assms by (simp add: put_auction_def updateAuction_def getAuction_def Let_def)

lemma post_auctions_accepted:
  assumes "isManager st sess = Inr manager" "getChitGroup st g = Some cg"
  shows "post_auctions e st sess g (Inr d) =
           (Reply 201 (fst (createAuction e st (d\<lparr> ia_chitGroupId := g \<rparr>))),
            snd (createAuction e st (d\<lparr> ia_chitGroupId := g \<rparr>)))"
  using assms by (simp add: post_auctions_def split: prod.splits)

lemma get_chitgroup_other_manager:
  assumes "req_user st sess = Some manager" "u_role manager = ''manager''"
    "getChitGroup st g = Some cg" "cg_createdBy cg \<noteq> u_id manager"
  shows "get_chitgroup st sess g =
           (Fail 403 (''You can only access chit groups you'' @ [CHR 0x27] @ ''ve created''), st)"
  using assms by (simp add: get_chitgroup_def isAuthenticated_def)

lemma put_chitgroup_any_manager:
  assumes "isManager st sess = Inr manager" "getChitGroup st g = Some cg"
  shows "put_chitgroup e st sess g (Inr d) =
           (Reply 200 (fst (updateChitGroup e st g (chitGroupPatch d))),
            snd (updateChitGroup e st g (chitGroupPatch d)))"
  using assms by (simp add: put_chitgroup_def split: prod.splits)

subsection \<open>Password reset\<close>

lemma mergeUser_passwordPatch:
  "mergeUser u (passwordPatch h) = u\<lparr> u_password := h, u_isFirstLogin := False \<rparr>"
  by (simp add: mergeUser_def passwordPatch_def spread_def)

lemma post_users_reset_password_accepted:
  assumes "getUser st userId = Some u" "userId \<noteq> 0" "current \<noteq> []" "new \<noteq> []"
    "comparePasswords e current (u_password u) = Some True"
  shows "post_users_reset_password e st sess userId (Some current) (Some new) =
           (Reply 200 ''Password updated successfully'',
            st\<lparr> users := AList.update userId
                             (u\<lparr> u_password := hashPassword e new, u_isFirstLogin := False \<rparr>)
                             (users st) \<rparr>)"
  using assms
  by (simp add: post_users_reset_password_def updateUser_def getUser_def Let_def
      mergeUser_passwordPatch)

lemma post_users_reset_password_success:
  assumes "post_users_reset_password e st sess userId currentPassword newPassword =
             (Reply code msg, st')"
  shows "\<exists>u current new. currentPassword = Some current \<and> newPassword = Some new
           \<and> userId \<noteq> 0 \<and> current \<noteq> [] \<and> new \<noteq> []
           \<and> getUser st userId = Some u
           \<and> comparePasswords e current (u_password u) = Some True"
  using assms
  by (auto simp: post_users_reset_password_def Let_def
      split: option.splits if_splits prod.splits)

lemma post_users_reset_password_session:
  "post_users_reset_password e st sess userId currentPassword newPassword =
     post_users_reset_password e st sess' userId currentPassword newPassword"
  by (simp add: post_users_reset_password_def)

lemma post_users_reset_password_not_401:
  "fst (post_users_reset_password e st sess userId currentPassword newPassword) \<noteq> Fail 401 msg"
  by (simp add: post_users_reset_password_def Let_def
      split: option.splits if_splits prod.splits)

lemma timingSafeEqual_True: "timingSafeEqual a b = Some True \<longleftrightarrow> a = b"
  by (auto simp: timingSafeEqual_def)

lemma comparePasswords_new:
  "scrypt e' = scrypt e \<Longrightarrow> comparePasswords e' new (hashPassword e new) = Some True"
  by (simp add: comparePasswords_hashPassword timingSafeEqual_True)

lemma comparePasswords_old:
  "scrypt e' = scrypt e \<Longrightarrow>
     comparePasswords e' current (hashPassword e new) = Some True \<longleftrightarrow>
       scrypt e current (toHex (randomBytes e 16)) 64 = scrypt e new (toHex (randomBytes e 16)) 64"
  by (auto simp: comparePasswords_hashPassword timingSafeEqual_True)

lemma post_users_reset_password_wrong:
  assumes "getUser st userId = Some u" "comparePasswords e current (u_password u) \<noteq> Some True"
  shows "\<exists>code msg. post_users_reset_password e st sess userId (Some current) newPassword =
           (Fail code msg, st)"
  using assms
  by (auto simp: post_users_reset_password_def split: option.splits)

lemma post_reset_password_accepted:
  assumes "req_user st sess = Some u" "getUser st (u_id u) = Some u"
  shows "post_reset_password e st sess (Some new) =
           (Reply 200 (Some (u\<lparr> u_password := hashPassword e new, u_isFirstLogin := False \<rparr>)),
            st\<lparr> users := AList.update (u_id u)
                             (u\<lparr> u_password := hashPassword e new, u_isFirstLogin := False \<rparr>)
                             (users st) \<rparr>)"
  using assms
  by (simp add: post_reset_password_def updateUser_def getUser_def Let_def
      mergeUser_passwordPatch)

subsection \<open>Passwords of the scenario\<close>

lemma later_scrypt: "scrypt laterEnv = scrypt demoEnv"
  by (simp add: laterEnv_def)

lemma demo_password: "comparePasswords laterEnv ''temp'' demoHash = Some True"
  unfolding demoHash_def using later_scrypt by (rule comparePasswords_new)

lemma demo_user3:
  "getUser demoStore 3 = Some (snd (users demoStore ! 2))"
  "u_password (snd (users demoStore ! 2)) = demoHash"
  "u_id (snd (users demoStore ! 2)) = 3"
  "u_isFirstLogin (snd (users demoStore ! 2))"
  by (simp_all add: demoStore_eq getUser_def)

lemma demo_keys_differ:
  "scrypt demoEnv ''wrong'' (toHex (randomBytes demoEnv 16)) 64
     \<noteq> scrypt demoEnv ''temp'' (toHex (randomBytes demoEnv 16)) 64"
  "scrypt laterEnv ''temp'' (toHex (randomBytes laterEnv 16)) 64
     \<noteq> scrypt laterEnv ''fresh'' (toHex (randomBytes laterEnv 16)) 64"
  by code_simp+

subsection \<open>More of the scenario\<close>

lemmas scenario_defs = demoEnv_def laterEnv_def demoBid_def demoPayment_def demoMember_def

lemma enrolledStore_eq:
  "enrolledStore =
     demoStore\<lparr> chitGroupMembers :=
         chitGroupMembers demoStore
         @ [(2, \<lparr> m_id = 2, m_chitGroupId = 1, m_userId = 4, m_joinDate = ''2024-01-06'',
                  m_createdAt = 1700000000000 \<rparr>)],
       chitGroupMemberIdCounter := 3 \<rparr>"
  by (simp add: enrolledStore_def demoStore_eq scenario_defs store_defs route_defs)

section \<open>The claims\<close>

subsection \<open>Claim C1: another manager's chit group\<close>

text \<open>
  C1. A manager who did not create a chit group must be refused, with the record left
  as it is, both on the detail read and on the update. Evaluated on the scenario:
  manager 2 asks for group 1, which manager 1 created. The read is refused with 403
  and the store is unchanged. The update is answered 200 and the group's name is
  overwritten: the handler of \<^verbatim>\<open>PUT /api/chitgroups/:id\<close> fetches the caller and never
  compares it with \<^verbatim>\<open>createdBy\<close>, unlike the read (lemma
  \<open>get_chitgroup_other_manager\<close>) and the member routes. The same holds for any
  manager and any existing group (lemma \<open>put_chitgroup_any_manager\<close>).
\<close>

theorem put_chitgroup_by_other_manager:
  "isManager demoStore (Some 2) = Inr (snd (users demoStore ! 1))
   \<and> u_id (snd (users demoStore ! 1)) = 2
   \<and> getChitGroup demoStore 1 = Some (snd (chitGroups demoStore ! 0))
   \<and> cg_createdBy (snd (chitGroups demoStore ! 0)) = 1
   \<and> get_chitgroup demoStore (Some 2) 1 =
       (Fail 403 (''You can only access chit groups you'' @ [CHR 0x27] @ ''ve created''),
        demoStore)
   \<and> put_chitgroup demoEnv demoStore (Some 2) 1 (Inr rename) =
       (Reply 200
          (Some \<lparr> cg_id = 1, cg_name = ''Taken over'', cg_value = 100000, cg_duration = 10,
                  cg_membersCount = 5, cg_startDate = ''2024-01-01'', cg_isActive = True,
                  cg_createdBy = 1, cg_createdAt = 1700000000000 \<rparr>),
        demoStore\<lparr> chitGroups :=
            [(1, \<lparr> cg_id = 1, cg_name = ''Taken over'', cg_value = 100000, cg_duration = 10,
                   cg_membersCount = 5, cg_startDate = ''2024-01-01'', cg_isActive = True,
                   cg_createdBy = 1, cg_createdAt = 1700000000000 \<rparr>)] \<rparr>)"
  by (simp add: demoStore_eq rename_def store_defs route_defs)

subsection \<open>Claim C2: updating an auction that is completed or cancelled\<close>

text \<open>
  C2 says that every update of a completed or cancelled auction fails with
  InvalidTransition and leaves the record unchanged. Neither the handler of
  \<^verbatim>\<open>PUT /api/auctions/:id\<close> nor \<^verbatim>\<open>updateAuction\<close> looks at the status, and no reply of
  the code is an InvalidTransition. In the scenario, after manager 1 completed the
  auction with winner 3 and winning bid 95000, the update that sets the status to
  \<^verbatim>\<open>scheduled\<close> is answered 200 and stored; the winner fields stay.
\<close>

theorem put_auction_reopen_counterexample:
  "getAuction completedStore 1 =
     Some \<lparr> a_id = 1, a_chitGroupId = 1, a_auctionDate = ''2024-02-01'',
            a_winnerUserId = Some 3, a_winningBid = Some 95000, a_status = ''completed'',
            a_monthNumber = 1, a_createdAt = 1700000000000 \<rparr>
   \<and> put_auction completedStore (Some 1) 1 (Inr reopen) =
       (Reply 200
          (Some \<lparr> a_id = 1, a_chitGroupId = 1, a_auctionDate = ''2024-02-01'',
                  a_winnerUserId = Some 3, a_winningBid = Some 95000,
                  a_status = ''scheduled'', a_monthNumber = 1,
                  a_createdAt = 1700000000000 \<rparr>),
        completedStore\<lparr> auctions :=
            [(1, \<lparr> a_id = 1, a_chitGroupId = 1, a_auctionDate = ''2024-02-01'',
                   a_winnerUserId = Some 3, a_winningBid = Some 95000,
                   a_status = ''scheduled'', a_monthNumber = 1,
                   a_createdAt = 1700000000000 \<rparr>)] \<rparr>)"
  by (simp add: completedStore_eq demoStore_eq reopen_def store_defs route_defs)

text \<open>
  C2, amended. For every existing auction, one whose status is completed or cancelled
  included, an update call by a manager with a schema-valid body is accepted with
  status 200 and the stored record becomes the old record with each key of the body
  written over it: the status is the body's when the body has one and the old one
  otherwise, and so for the winner fields. A call by anyone who is not a manager, or
  with a body the schema rejects, fails and leaves the store unchanged.
\<close>

theorem put_auction_overwrites:
  assumes "getAuction st i = Some a"
  shows "(isManager st sess = Inr manager \<longrightarrow>
            put_auction st sess i (Inr d) =
              (Reply 200 (Some (mergeAuction a (auctionPatch d))),
               st\<lparr> auctions := AList.update i (mergeAuction a (auctionPatch d)) (auctions st) \<rparr>)
            \<and> getAuction (snd (put_auction st sess i (Inr d))) i =
                Some (mergeAuction a (auctionPatch d))
            \<and> a_status (mergeAuction a (auctionPatch d)) =
                (case ua_status d of None \<Rightarrow> a_status a | Some s \<Rightarrow> s)
            \<and> a_winnerUserId (mergeAuction a (auctionPatch d)) =
                (case ua_winnerUserId d of None \<Rightarrow> a_winnerUserId a | Some w \<Rightarrow> w)
            \<and> a_winningBid (mergeAuction a (auctionPatch d)) =
                (case ua_winningBid d of None \<Rightarrow> a_winningBid a | Some w \<Rightarrow> w))
       \<and> ((\<forall>manager. isManager st sess \<noteq> Inr manager) \<or> (\<exists>error. body = Inl error) \<longrightarrow>
            (\<exists>code msg. put_auction st sess i body = (Fail code msg, st)))"
proof (intro conjI impI)
  assume m: "isManager st sess = Inr manager"
  show "put_auction st sess i (Inr d) =
              (Reply 200 (Some (mergeAuction a (auctionPatch d))),
               st\<lparr> auctions := AList.update i (mergeAuction a (auctionPatch d)) (auctions st) \<rparr>)"
    by (rule put_auction_accepted [OF m assms])
  then show "getAuction (snd (put_auction st sess i (Inr d))) i =
                Some (mergeAuction a (auctionPatch d))"
    by (simp add: getAuction_def update_conv')
  show "a_status (mergeAuction a (auctionPatch d)) =
                (case ua_status d of None \<Rightarrow> a_status a | Some s \<Rightarrow> s)"
    by (simp add: mergeAuction_def auctionPatch_def spread_def)
  show "a_winnerUserId (mergeAuction a (auctionPatch d)) =
                (case ua_winnerUserId d of None \<Rightarrow> a_winnerUserId a | Some w \<Rightarrow> w)"
    by (simp add: mergeAuction_def auctionPatch_def spread_def)
  show "a_winningBid (mergeAuction a (auctionPatch d)) =
                (case ua_winningBid d of None \<Rightarrow> a_winningBid a | Some w \<Rightarrow> w)"
    by (simp add: mergeAuction_def auctionPatch_def spread_def)
next
  assume "(\<forall>manager. isManager st sess \<noteq> Inr manager) \<or> (\<exists>error. body = Inl error)"
  then show "\<exists>code msg. put_auction st sess i body = (Fail code msg, st)"
    using assms by (auto simp: put_auction_def split: sum.splits)
qed

text \<open>
  On the completed auction of the scenario the manager's update is accepted and the
  status is \<^verbatim>\<open>scheduled\<close> afterwards; customer 3 is refused.
\<close>

theorem put_auction_overwrites_witness:
  "put_auction completedStore (Some 1) 1 (Inr reopen) =
     (Reply 200 (Some (mergeAuction (snd (auctions completedStore ! 0)) (auctionPatch reopen))),
      completedStore\<lparr> auctions :=
          AList.update 1 (mergeAuction (snd (auctions completedStore ! 0)) (auctionPatch reopen))
            (auctions completedStore) \<rparr>)
   \<and> a_status (snd (auctions completedStore ! 0)) = ''completed''
   \<and> a_status (mergeAuction (snd (auctions completedStore ! 0)) (auctionPatch reopen)) =
       ''scheduled''
   \<and> (\<exists>code msg. put_auction completedStore (Some 3) 1 (Inr reopen) =
         (Fail code msg, completedStore))"
proof -
  have a: "getAuction completedStore 1 = Some (snd (auctions completedStore ! 0))"
    by (simp add: completedStore_eq demoStore_eq getAuction_def)
  have m: "isManager completedStore (Some 1) = Inr (snd (users completedStore ! 0))"
    by (simp add: completedStore_eq demoStore_eq isManager_def req_user_def getUser_def)
  have c: "\<forall>manager. isManager completedStore (Some 3) \<noteq> Inr manager"
    by (simp add: completedStore_eq demoStore_eq isManager_def req_user_def getUser_def)
  have s: "a_status (snd (auctions completedStore ! 0)) = ''completed''"
    by (simp add: completedStore_eq)
  note accepted = put_auction_overwrites [OF a, THEN conjunct1, THEN mp, OF m, of reopen]
  note refused = put_auction_overwrites [OF a, THEN conjunct2, THEN mp, OF disjI1, OF c,
      of "Inr reopen"]
  show ?thesis
    using accepted refused s by (simp add: reopen_def)
qed

subsection \<open>Claim C3: status and winner fields\<close>

text \<open>
  C3 says that in every store the create and update operations can reach, a completed
  auction has both winner fields and a scheduled or cancelled one has neither, and
  that an update to \<^verbatim>\<open>completed\<close> without both winner fields is rejected. The code
  has no such check. On the store of the scenario, manager 1 creates an auction with
  status \<^verbatim>\<open>completed\<close> and no winner fields (201; it is stored with both fields
  null), and sets the scheduled auction to \<^verbatim>\<open>completed\<close> without winner fields (200;
  stored as completed with both fields null).
\<close>

theorem auction_status_and_winner_unrelated_counterexample:
  "post_auctions demoEnv demoStore (Some 1) 1 (Inr completedAtBirth) =
     (Reply 201 \<lparr> a_id = 2, a_chitGroupId = 1, a_auctionDate = ''2024-03-01'',
                  a_winnerUserId = None, a_winningBid = None, a_status = ''completed'',
                  a_monthNumber = 2, a_createdAt = 1700000000000 \<rparr>,
      demoStore\<lparr> auctions :=
          auctions demoStore
          @ [(2, \<lparr> a_id = 2, a_chitGroupId = 1, a_auctionDate = ''2024-03-01'',
                   a_winnerUserId = None, a_winningBid = None, a_status = ''completed'',
                   a_monthNumber = 2, a_createdAt = 1700000000000 \<rparr>)],
        auctionIdCounter := 3 \<rparr>)
   \<and> put_auction demoStore (Some 1) 1 (Inr completeOnly) =
       (Reply 200
          (Some \<lparr> a_id = 1, a_chitGroupId = 1, a_auctionDate = ''2024-02-01'',
                  a_winnerUserId = None, a_winningBid = None, a_status = ''completed'',
                  a_monthNumber = 1, a_createdAt = 1700000000000 \<rparr>),
        demoStore\<lparr> auctions :=
            [(1, \<lparr> a_id = 1, a_chitGroupId = 1, a_auctionDate = ''2024-02-01'',
                   a_winnerUserId = None, a_winningBid = None, a_status = ''completed'',
                   a_monthNumber = 1, a_createdAt = 1700000000000 \<rparr>)] \<rparr>)"
  by (simp add: demoStore_eq completedAtBirth_def completeOnly_def reopen_def demoEnv_def
      store_defs route_defs)

text \<open>
  C3, amended. An auction created through \<^verbatim>\<open>POST /api/chitgroups/:id/auctions\<close> by a
  manager for an existing group is stored with the status of the request and with each
  winner field as the request gives it, null when the key is absent, whatever the
  status. An update by a manager that sets the status to \<^verbatim>\<open>completed\<close> and has
  neither winner key is accepted: the stored auction is completed and keeps the winner
  fields it had.
\<close>

theorem auction_fields_as_supplied:
  "(isManager st sess = Inr manager \<and> getChitGroup st g = Some cg \<longrightarrow>
      (\<exists>a st'. post_auctions e st sess g (Inr d) = (Reply 201 a, st')
         \<and> getAuction st' (a_id a) = Some a
         \<and> a_chitGroupId a = g
         \<and> a_status a = ia_status d
         \<and> a_winnerUserId a = (case ia_winnerUserId d of None \<Rightarrow> None | Some w \<Rightarrow> w)
         \<and> a_winningBid a = (case ia_winningBid d of None \<Rightarrow> None | Some w \<Rightarrow> w)))
   \<and> (isManager st sess = Inr manager \<and> getAuction st i = Some old
        \<and> ua_status c = Some ''completed'' \<and> ua_winnerUserId c = None
        \<and> ua_winningBid c = None \<longrightarrow>
      (\<exists>a st'. put_auction st sess i (Inr c) = (Reply 200 (Some a), st')
         \<and> getAuction st' i = Some a
         \<and> a_status a = ''completed''
         \<and> a_winnerUserId a = a_winnerUserId old
         \<and> a_winningBid a = a_winningBid old))"
proof (intro conjI impI)
  assume h: "isManager st sess = Inr manager \<and> getChitGroup st g = Some cg"
  then have "post_auctions e st sess g (Inr d) =
           (Reply 201 (fst (createAuction e st (d\<lparr> ia_chitGroupId := g \<rparr>))),
            snd (createAuction e st (d\<lparr> ia_chitGroupId := g \<rparr>)))"
    using post_auctions_accepted by blast
  then show "\<exists>a st'. post_auctions e st sess g (Inr d) = (Reply 201 a, st')
         \<and> getAuction st' (a_id a) = Some a
         \<and> a_chitGroupId a = g
         \<and> a_status a = ia_status d
         \<and> a_winnerUserId a = (case ia_winnerUserId d of None \<Rightarrow> None | Some w \<Rightarrow> w)
         \<and> a_winningBid a = (case ia_winningBid d of None \<Rightarrow> None | Some w \<Rightarrow> w)"
    by (simp add: createAuction_def Let_def getAuction_def update_conv')
next
  assume h: "isManager st sess = Inr manager \<and> getAuction st i = Some old
        \<and> ua_status c = Some ''completed'' \<and> ua_winnerUserId c = None
        \<and> ua_winningBid c = None"
  then have "put_auction st sess i (Inr c) =
           (Reply 200 (Some (mergeAuction old (auctionPatch c))),
            st\<lparr> auctions := AList.update i (mergeAuction old (auctionPatch c)) (auctions st) \<rparr>)"
    using put_auction_accepted by blast
  then show "\<exists>a st'. put_auction st sess i (Inr c) = (Reply 200 (Some a), st')
         \<and> getAuction st' i = Some a
         \<and> a_status a = ''completed''
         \<and> a_winnerUserId a = a_winnerUserId old
         \<and> a_winningBid a = a_winningBid old"
    using h by (simp add: getAuction_def update_conv' mergeAuction_def auctionPatch_def spread_def)
qed

text \<open>The two requests of the counterexample, through the theorem.\<close>

theorem auction_fields_as_supplied_witness:
  "(\<exists>a st'. post_auctions demoEnv demoStore (Some 1) 1 (Inr completedAtBirth) = (Reply 201 a, st')
      \<and> getAuction st' (a_id a) = Some a \<and> a_chitGroupId a = 1
      \<and> a_status a = ''completed'' \<and> a_winnerUserId a = None \<and> a_winningBid a = None)
   \<and> (\<exists>a st'. put_auction demoStore (Some 1) 1 (Inr completeOnly) = (Reply 200 (Some a), st')
      \<and> getAuction st' 1 = Some a \<and> a_status a = ''completed''
      \<and> a_winnerUserId a = None \<and> a_winningBid a = None)"
proof -
  have create: "isManager demoStore (Some 1) = Inr (snd (users demoStore ! 0))
                  \<and> getChitGroup demoStore 1 = Some (snd (chitGroups demoStore ! 0))"
    by (simp add: demoStore_eq isManager_def req_user_def getUser_def getChitGroup_def)
  have update: "isManager demoStore (Some 1) = Inr (snd (users demoStore ! 0))
                  \<and> getAuction demoStore 1 = Some (snd (auctions demoStore ! 0))
                  \<and> ua_status completeOnly = Some ''completed''
                  \<and> ua_winnerUserId completeOnly = None \<and> ua_winningBid completeOnly = None"
    by (simp add: demoStore_eq isManager_def req_user_def getUser_def getAuction_def
        completeOnly_def reopen_def)
  note created = auction_fields_as_supplied [THEN conjunct1, THEN mp, OF create,
      of demoEnv completedAtBirth]
  note updated = auction_fields_as_supplied [THEN conjunct2, THEN mp, OF update]
  have "a_winnerUserId (snd (auctions demoStore ! 0)) = None"
       "a_winningBid (snd (auctions demoStore ! 0)) = None"
    by (simp_all add: demoStore_eq)
  with created updated show ?thesis
    by (simp add: completedAtBirth_def)
qed

subsection \<open>Claim C4: placing a bid\<close>

text \<open>
  C4 says that a bid on a scheduled auction by a user who is not a member of the
  auction's group fails with Forbidden. The handler checks membership only when the
  role of the user is \<^verbatim>\<open>customer\<close>. In the scenario, manager 2 neither created the
  group nor is a member of it, and the bid is accepted with status 201 and stored.
\<close>

theorem post_bids_non_member_counterexample:
  "req_user demoStore (Some 2) = Some (snd (users demoStore ! 1))
   \<and> getAuction demoStore 1 = Some (snd (auctions demoStore ! 0))
   \<and> a_status (snd (auctions demoStore ! 0)) = ''scheduled''
   \<and> \<not> isMember demoStore (a_chitGroupId (snd (auctions demoStore ! 0))) 2
   \<and> post_bids demoEnv demoStore (Some 2) 1 (Inr demoBid) =
       (Reply 201 \<lparr> b_id = 1, b_auctionId = 1, b_userId = 2, b_bidAmount = 90000,
                    b_bidTime = 1700000000000, b_createdAt = 1700000000000 \<rparr>,
        demoStore\<lparr> bids :=
            [(1, \<lparr> b_id = 1, b_auctionId = 1, b_userId = 2, b_bidAmount = 90000,
                   b_bidTime = 1700000000000, b_createdAt = 1700000000000 \<rparr>)],
          bidIdCounter := 2 \<rparr>)"
  by (simp add: demoStore_eq scenario_defs store_defs route_defs)

text \<open>
  C4, amended. For every session, auction id and schema-valid body: the bid is accepted
  (201) if and only if the session has a user, the auction exists, its status is
  \<^verbatim>\<open>scheduled\<close>, and the user is a member of the auction's group or has a role other
  than \<^verbatim>\<open>customer\<close>. On an auction whose status is not \<^verbatim>\<open>scheduled\<close> (completed or
  cancelled) every call fails and the store is unchanged; on a scheduled auction a
  customer who is not a member gets 403 and the store is unchanged; every call that is
  not accepted leaves the store unchanged. An accepted bid carries the auction's id
  and the caller's id, is among the auction's bids afterwards, and is in the reply of
  the bid listing with its bidder's details.
\<close>

theorem post_bids_accepts_iff:
  "((\<exists>b st'. post_bids e st sess i (Inr d) = (Reply 201 b, st')) \<longleftrightarrow>
      (\<exists>u a. req_user st sess = Some u \<and> getAuction st i = Some a
         \<and> a_status a = ''scheduled''
         \<and> (u_role u = ''customer'' \<longrightarrow> isMember st (a_chitGroupId a) (u_id u))))
   \<and> (getAuction st i = Some a \<and> a_status a \<noteq> ''scheduled'' \<longrightarrow>
        (\<exists>code msg. post_bids e st sess i body = (Fail code msg, st)))
   \<and> (req_user st sess = Some u \<and> getAuction st i = Some a \<and> a_status a = ''scheduled''
        \<and> u_role u = ''customer'' \<and> \<not> isMember st (a_chitGroupId a) (u_id u) \<longrightarrow>
        post_bids e st sess i body = (Fail 403 ''You are not a member of this chit group'', st))
   \<and> ((\<forall>b. fst (post_bids e st sess i body) \<noteq> Reply 201 b) \<longrightarrow>
        snd (post_bids e st sess i body) = st)
   \<and> (post_bids e st sess i (Inr d) = (Reply 201 b, st') \<longrightarrow>
        b_auctionId b = i \<and> map_option u_id (req_user st sess) = Some (b_userId b)
        \<and> b \<in> set (getBidsByAuction st' i)
        \<and> (\<exists>listing. get_bids st' sess i = (Reply 200 listing, st')
              \<and> bidWithUserDetails st' b \<in> set listing))"
proof (intro conjI impI)
  show "(\<exists>b st'. post_bids e st sess i (Inr d) = (Reply 201 b, st')) \<longleftrightarrow>
      (\<exists>u a. req_user st sess = Some u \<and> getAuction st i = Some a
         \<and> a_status a = ''scheduled''
         \<and> (u_role u = ''customer'' \<longrightarrow> isMember st (a_chitGroupId a) (u_id u)))"
    using post_bids_success [of e st sess i d] post_bids_accepted [of st sess _ i _ e d]
    by blast
next
  assume "getAuction st i = Some a \<and> a_status a \<noteq> ''scheduled''"
  then show "\<exists>code msg. post_bids e st sess i body = (Fail code msg, st)"
    by (auto simp: post_bids_def split: sum.splits option.splits)
next
  assume "req_user st sess = Some u \<and> getAuction st i = Some a \<and> a_status a = ''scheduled''
        \<and> u_role u = ''customer'' \<and> \<not> isMember st (a_chitGroupId a) (u_id u)"
  then show "post_bids e st sess i body =
               (Fail 403 ''You are not a member of this chit group'', st)"
    by (simp add: post_bids_def isAuthenticated_def)
next
  assume "\<forall>b. fst (post_bids e st sess i body) \<noteq> Reply 201 b"
  then show "snd (post_bids e st sess i body) = st"
    by (auto simp: post_bids_def createBid_def Let_def
        split: sum.splits option.splits if_splits)
next
  assume ok: "post_bids e st sess i (Inr d) = (Reply 201 b, st')"
  from post_bids_success [OF ok] obtain u a where
    u: "req_user st sess = Some u" and a: "getAuction st i = Some a"
    and b: "b_auctionId b = i" and bu: "b_userId b = u_id u"
    and st': "st' = st\<lparr> bids := AList.update (bidIdCounter st) b (bids st),
                        bidIdCounter := bidIdCounter st + 1 \<rparr>"
    by blast
  show "b_auctionId b = i" by (rule b)
  show "map_option u_id (req_user st sess) = Some (b_userId b)"
    using u bu by simp
  have "b \<in> snd ` set (bids st')"
    unfolding st' using update_mem [of "bidIdCounter st" b] by force
  with b show "b \<in> set (getBidsByAuction st' i)"
    by (auto simp: getBidsByAuction_def)
  then have "bidWithUserDetails st' b \<in> set (map (bidWithUserDetails st') (getBidsByAuction st' i))"
    by simp
  moreover have "isAuthenticated st' sess = Inr u"
    using u isAuthenticated_frame [of st' st sess] unfolding st'
    by (simp add: isAuthenticated_def)
  moreover have "getAuction st' i = Some a"
    using a unfolding st' by (simp add: getAuction_def)
  ultimately show "\<exists>listing. get_bids st' sess i = (Reply 200 listing, st')
              \<and> bidWithUserDetails st' b \<in> set listing"
    by (simp add: get_bids_def)
qed

text \<open>
  In the scenario: customer 4 is not a member and gets 403; on the completed auction
  the member's bid fails; the member's bid on the scheduled auction is listed.
\<close>

theorem post_bids_accepts_iff_witness:
  "post_bids demoEnv demoStore (Some 4) 1 (Inr demoBid) =
     (Fail 403 ''You are not a member of this chit group'', demoStore)
   \<and> (\<exists>code msg. post_bids demoEnv completedStore (Some 3) 1 (Inr demoBid) =
         (Fail code msg, completedStore))
   \<and> snd (bids bidStore ! 0) \<in> set (getBidsByAuction bidStore 1)
   \<and> (\<exists>listing. get_bids bidStore (Some 3) 1 = (Reply 200 listing, bidStore)
         \<and> bidWithUserDetails bidStore (snd (bids bidStore ! 0)) \<in> set listing)"
proof -
  have outsider:
    "req_user demoStore (Some 4) = Some (snd (users demoStore ! 3))
     \<and> getAuction demoStore 1 = Some (snd (auctions demoStore ! 0))
     \<and> a_status (snd (auctions demoStore ! 0)) = ''scheduled''
     \<and> u_role (snd (users demoStore ! 3)) = ''customer''
     \<and> \<not> isMember demoStore (a_chitGroupId (snd (auctions demoStore ! 0)))
           (u_id (snd (users demoStore ! 3)))"
    by (simp add: demoStore_eq store_defs route_defs)
  have closed:
    "getAuction completedStore 1 = Some (snd (auctions completedStore ! 0))
     \<and> a_status (snd (auctions completedStore ! 0)) \<noteq> ''scheduled''"
    by (simp add: completedStore_eq demoStore_eq store_defs)
  have placed:
    "post_bids demoEnv demoStore (Some 3) 1 (Inr demoBid) =
       (Reply 201 (snd (bids bidStore ! 0)), bidStore)"
    by (simp add: bidStore_eq demoStore_eq scenario_defs store_defs route_defs)
  note not_member =
    post_bids_accepts_iff [THEN conjunct2, THEN conjunct2, THEN conjunct1, THEN mp,
      OF outsider, of demoEnv "Inr demoBid"]
  note not_scheduled =
    post_bids_accepts_iff [THEN conjunct2, THEN conjunct1, THEN mp, OF closed,
      of demoEnv "Some 3" "Inr demoBid"]
  note listed =
    post_bids_accepts_iff [THEN conjunct2, THEN conjunct2, THEN conjunct2, THEN conjunct2,
      THEN mp, OF placed]
  show ?thesis
    using not_member not_scheduled listed by simp
qed

subsection \<open>Claim C5: recording a payment\<close>




subsection \<open>Claim C6: adding a member twice\<close>

text \<open>
  C6. After an accepted add-member call for group \<open>g\<close> and user \<open>U\<close> the store holds
  exactly one membership record for the pair. A second call for the same pair by the
  same caller fails with status 400 and the message
  \<^verbatim>\<open>User is already a member of this chit group\<close> (the reply the code gives where the
  specification says Conflict); a second call by anyone fails as well; in both cases
  the store, and so the single membership record, stays as it is.
\<close>

theorem post_members_twice_conflict:
  assumes "post_members e st sess g (Inr d) = (Reply 201 member, st')"
  shows "length (filter (\<lambda>m. m_chitGroupId m = g \<and> m_userId m = im_userId d)
                   (map snd (chitGroupMembers st'))) = 1
       \<and> (im_userId d' = im_userId d \<longrightarrow>
            post_members e' st' sess g (Inr d') =
              (Fail 400 ''User is already a member of this chit group'', st'))
       \<and> (im_userId d' = im_userId d \<longrightarrow>
            (\<exists>code msg. post_members e' st' sess' g (Inr d') = (Fail code msg, st')))"
proof -
  from post_members_success [OF assms] obtain manager cg u where
    m: "isManager st sess = Inr manager" and cg: "getChitGroup st g = Some cg"
    and own: "cg_createdBy cg = u_id manager" and u: "getUser st (im_userId d) = Some u"
    and mg: "\<not> (u_role u = ''customer'' \<and> u_managerId u \<noteq> Some (u_id manager))"
    and fresh: "\<not> isMember st g (im_userId d)"
    and member: "member = \<lparr> m_id = chitGroupMemberIdCounter st, m_chitGroupId = g,
                         m_userId = im_userId d, m_joinDate = im_joinDate d,
                         m_createdAt = now e \<rparr>"
    and st': "st' = st\<lparr> chitGroupMembers :=
                          AList.update (chitGroupMemberIdCounter st) member (chitGroupMembers st),
                        chitGroupMemberIdCounter := chitGroupMemberIdCounter st + 1 \<rparr>"
    by blast
  let ?P = "\<lambda>m. m_chitGroupId m = g \<and> m_userId m = im_userId d"
  have none: "\<forall>x \<in> snd ` set (chitGroupMembers st). \<not> ?P x"
    using fresh by (auto simp: isMember_def getChitGroupMembers_def)
  have "?P member" by (simp add: member)
  with none have one: "filter ?P (map snd (chitGroupMembers st')) = [member]"
    unfolding st' by (simp add: filter_update_unmatched)
  have "member \<in> snd ` set (chitGroupMembers st')"
    unfolding st' using update_mem [of "chitGroupMemberIdCounter st" member] by force
  then have now_member: "isMember st' g (im_userId d)"
    using \<open>?P member\<close> by (auto simp: isMember_def getChitGroupMembers_def)
  have same: "isManager st' sess = Inr manager" "getChitGroup st' g = Some cg"
      "getUser st' (im_userId d) = Some u"
    using m cg u isManager_frame [of st' st sess] unfolding st'
    by (simp_all add: getUser_def getChitGroup_def)
  have conflict: "im_userId d' = im_userId d \<Longrightarrow>
      post_members e' st' sess g (Inr d') =
        (Fail 400 ''User is already a member of this chit group'', st')"
    using same own mg now_member by (simp add: post_members_def Let_def)
  have anyone: "im_userId d' = im_userId d \<Longrightarrow>
      \<exists>code msg. post_members e' st' sess' g (Inr d') = (Fail code msg, st')"
    using now_member
    by (auto simp: post_members_def Let_def split: sum.splits option.splits)
  show ?thesis
    using one conflict anyone by simp
qed


text \<open>Manager 1 enrols customer 4, then repeats the call; manager 2 tries as well.\<close>

theorem post_members_twice_conflict_witness:
  "length (filter (\<lambda>m. m_chitGroupId m = 1 \<and> m_userId m = 4)
             (map snd (chitGroupMembers enrolledStore))) = 1
   \<and> post_members laterEnv enrolledStore (Some 1) 1 (Inr demoMember) =
       (Fail 400 ''User is already a member of this chit group'', enrolledStore)
   \<and> (\<exists>code msg. post_members laterEnv enrolledStore (Some 2) 1 (Inr demoMember) =
         (Fail code msg, enrolledStore))"
proof -
  have first:
    "post_members demoEnv demoStore (Some 1) 1 (Inr demoMember) =
       (Reply 201 (snd (chitGroupMembers enrolledStore ! 1)), enrolledStore)"
    by (simp add: enrolledStore_eq demoStore_eq scenario_defs store_defs route_defs)
  show ?thesis
    using post_members_twice_conflict [OF first, where d' = demoMember and e' = laterEnv
        and sess' = "Some 2"]
    by (simp add: demoMember_def)
qed

subsection \<open>Claim C7: a customer's group listing\<close>

text \<open>
  C7. For an authenticated customer, \<^verbatim>\<open>GET /api/chitgroups\<close> answers 200 and the
  groups it returns are exactly the stored groups \<open>g\<close> for which a membership record
  with \<open>chitGroupId = g.id\<close> and \<open>userId\<close> the customer's id exists: every such group
  is returned and no other. The store is one the operations produce (\<open>store_ok\<close>).
\<close>

theorem get_chitgroups_customer_exact:
  assumes "req_user st sess = Some customer" and "u_role customer = ''customer''"
    and "store_ok st"
  shows "\<exists>groups. get_chitgroups st sess = (Reply 200 groups, st)
           \<and> set groups =
               {g \<in> snd ` set (chitGroups st).
                  \<exists>m \<in> snd ` set (chitGroupMembers st).
                     m_chitGroupId m = cg_id g \<and> m_userId m = u_id customer}"
proof -
  have "keyed cg_id (chitGroups st) (chitGroupIdCounter st)"
    using assms(3) by (simp add: store_ok_def)
  then show ?thesis
    using assms(1,2)
    by (simp add: get_chitgroups_def isAuthenticated_def set_getChitGroupsByUser)
qed


text \<open>Customer 3 of the scenario, who is enrolled in the group Gold.\<close>

theorem get_chitgroups_customer_exact_witness:
  "\<exists>groups. get_chitgroups demoStore (Some 3) = (Reply 200 groups, demoStore)
     \<and> set groups =
         {g \<in> snd ` set (chitGroups demoStore).
            \<exists>m \<in> snd ` set (chitGroupMembers demoStore).
               m_chitGroupId m = cg_id g \<and> m_userId m = 3}"
proof -
  have u: "req_user demoStore (Some 3) = Some (snd (users demoStore ! 2))"
    by (simp add: demoStore_eq req_user_def getUser_def)
  have r: "u_role (snd (users demoStore ! 2)) = ''customer''"
    by (simp add: demoStore_eq)
  have i: "u_id (snd (users demoStore ! 2)) = 3"
    by (simp add: demoStore_eq)
  show ?thesis
    using get_chitgroups_customer_exact [OF u r demoStore_ok] i by simp
qed

subsection \<open>Claim C8: the first-login password reset\<close>

text \<open>
  C8 says that the reset accepts a new password only with the correct current one,
  and that afterwards the old password no longer verifies. Two runs on the scenario
  contradict it. Customer 3 resets through \<^verbatim>\<open>POST /api/users/3/reset-password\<close>
  giving the old password as the new one: the call is accepted, and the old password
  verifies against the new credential. Through \<^verbatim>\<open>POST /api/reset-password\<close> the
  session of customer 3 sets a new password without any current password.
\<close>

theorem reset_password_counterexample:
  "u_password (snd (users demoStore ! 2)) = hashPassword demoEnv ''temp''
   \<and> comparePasswords laterEnv ''temp'' (hashPassword demoEnv ''temp'') = Some True
   \<and> post_users_reset_password laterEnv demoStore None 3 (Some ''temp'') (Some ''temp'') =
       (Reply 200 ''Password updated successfully'',
        demoStore\<lparr> users := AList.update 3
            (snd (users demoStore ! 2)\<lparr> u_password := hashPassword laterEnv ''temp'',
                                         u_isFirstLogin := False \<rparr>)
            (users demoStore) \<rparr>)
   \<and> comparePasswords laterEnv ''temp'' (hashPassword laterEnv ''temp'') = Some True
   \<and> post_reset_password laterEnv demoStore (Some 3) (Some ''fresh'') =
       (Reply 200 (Some (snd (users demoStore ! 2)\<lparr> u_password := hashPassword laterEnv ''fresh'',
                                                     u_isFirstLogin := False \<rparr>)),
        demoStore\<lparr> users := AList.update 3
            (snd (users demoStore ! 2)\<lparr> u_password := hashPassword laterEnv ''fresh'',
                                         u_isFirstLogin := False \<rparr>)
            (users demoStore) \<rparr>)"
proof -
  have u: "getUser demoStore 3 = Some (snd (users demoStore ! 2))"
    by (simp add: demoStore_eq getUser_def)
  have p: "u_password (snd (users demoStore ! 2)) = demoHash"
    by (simp add: demoStore_eq)
  have s: "req_user demoStore (Some 3) = Some (snd (users demoStore ! 2))"
    using u by (simp add: req_user_def)
  have i: "u_id (snd (users demoStore ! 2)) = 3"
    by (simp add: demoStore_eq)
  have c: "comparePasswords laterEnv ''temp'' (u_password (snd (users demoStore ! 2))) = Some True"
    using demo_password p by simp
  have a: "post_users_reset_password laterEnv demoStore None 3 (Some ''temp'') (Some ''temp'') =
       (Reply 200 ''Password updated successfully'',
        demoStore\<lparr> users := AList.update 3
            (snd (users demoStore ! 2)\<lparr> u_password := hashPassword laterEnv ''temp'',
                                         u_isFirstLogin := False \<rparr>)
            (users demoStore) \<rparr>)"
    by (rule post_users_reset_password_accepted [OF u _ _ _ c]) simp_all
  have b: "post_reset_password laterEnv demoStore (Some 3) (Some ''fresh'') =
       (Reply 200 (Some (snd (users demoStore ! 2)\<lparr> u_password := hashPassword laterEnv ''fresh'',
                                                     u_isFirstLogin := False \<rparr>)),
        demoStore\<lparr> users := AList.update (u_id (snd (users demoStore ! 2)))
            (snd (users demoStore ! 2)\<lparr> u_password := hashPassword laterEnv ''fresh'',
                                         u_isFirstLogin := False \<rparr>)
            (users demoStore) \<rparr>)"
    by (rule post_reset_password_accepted [OF s]) (simp add: i u)
  show ?thesis
    using a b c p i comparePasswords_new [OF refl, of laterEnv "''temp''"]
    by (simp add: demoHash_def)
qed

text \<open>
  C8, amended. \<^verbatim>\<open>POST /api/users/:userId/reset-password\<close> accepts a new password only
  when the supplied current password verifies against the user's stored credential;
  the user then has \<^verbatim>\<open>isFirstLogin = false\<close> and the hash of the new password under
  a new salt. The new password verifies against that credential; the old one verifies
  exactly when its derived key under the new salt equals the new password's (so it
  does when the two passwords are equal). With a current password that does not
  verify the call fails and the store is unchanged. \<^verbatim>\<open>POST /api/reset-password\<close>
  asks for no current password: without a session user it answers 401 and changes
  nothing, with one it replaces that user's credential and clears \<^verbatim>\<open>isFirstLogin\<close>.
  Verification may happen in a later request \<open>e'\<close> with the same key derivation.
\<close>

theorem reset_password_flows:
  "(post_users_reset_password e st sess userId currentPassword newPassword =
      (Reply code msg, st') \<longrightarrow>
      (\<exists>u current new. currentPassword = Some current \<and> newPassword = Some new
         \<and> getUser st userId = Some u
         \<and> comparePasswords e current (u_password u) = Some True
         \<and> getUser st' userId =
             Some (u\<lparr> u_password := hashPassword e new, u_isFirstLogin := False \<rparr>)))
   \<and> (getUser st userId = Some u \<and> comparePasswords e current (u_password u) \<noteq> Some True
        \<longrightarrow> (\<exists>code msg. post_users_reset_password e st sess userId (Some current) newPassword =
               (Fail code msg, st)))
   \<and> (scrypt e' = scrypt e \<longrightarrow> comparePasswords e' new (hashPassword e new) = Some True)
   \<and> (scrypt e' = scrypt e \<longrightarrow>
        (comparePasswords e' current (hashPassword e new) = Some True \<longleftrightarrow>
           scrypt e current (toHex (randomBytes e 16)) 64 =
             scrypt e new (toHex (randomBytes e 16)) 64))
   \<and> (req_user st sess = Some u \<and> getUser st (u_id u) = Some u \<longrightarrow>
        post_reset_password e st sess (Some new) =
          (Reply 200 (Some (u\<lparr> u_password := hashPassword e new, u_isFirstLogin := False \<rparr>)),
           st\<lparr> users := AList.update (u_id u)
                            (u\<lparr> u_password := hashPassword e new, u_isFirstLogin := False \<rparr>)
                            (users st) \<rparr>))
   \<and> (req_user st sess = None \<longrightarrow>
        post_reset_password e st sess newPassword = (Fail 401 ''Not authenticated'', st))"
proof (intro conjI impI)
  assume ok: "post_users_reset_password e st sess userId currentPassword newPassword =
      (Reply code msg, st')"
  from post_users_reset_password_success [OF ok] obtain u current new where
    h: "currentPassword = Some current" "newPassword = Some new" "userId \<noteq> 0"
       "current \<noteq> []" "new \<noteq> []" "getUser st userId = Some u"
       "comparePasswords e current (u_password u) = Some True"
    by blast
  have "st' = st\<lparr> users := AList.update userId
                             (u\<lparr> u_password := hashPassword e new, u_isFirstLogin := False \<rparr>)
                             (users st) \<rparr>"
    using ok post_users_reset_password_accepted [OF h(6,3,4,5,7), where sess = sess] h(1,2)
    by simp
  then have "getUser st' userId =
             Some (u\<lparr> u_password := hashPassword e new, u_isFirstLogin := False \<rparr>)"
    by (simp add: getUser_def update_conv')
  with h show "\<exists>u current new. currentPassword = Some current \<and> newPassword = Some new
         \<and> getUser st userId = Some u
         \<and> comparePasswords e current (u_password u) = Some True
         \<and> getUser st' userId =
             Some (u\<lparr> u_password := hashPassword e new, u_isFirstLogin := False \<rparr>)"
    by blast
next
  assume "getUser st userId = Some u \<and> comparePasswords e current (u_password u) \<noteq> Some True"
  then show "\<exists>code msg. post_users_reset_password e st sess userId (Some current) newPassword =
               (Fail code msg, st)"
    using post_users_reset_password_wrong by blast
next
  assume "scrypt e' = scrypt e"
  then show "comparePasswords e' new (hashPassword e new) = Some True"
    by (rule comparePasswords_new)
next
  assume "scrypt e' = scrypt e"
  then show "comparePasswords e' current (hashPassword e new) = Some True \<longleftrightarrow>
           scrypt e current (toHex (randomBytes e 16)) 64 =
             scrypt e new (toHex (randomBytes e 16)) 64"
    by (rule comparePasswords_old)
next
  assume "req_user st sess = Some u \<and> getUser st (u_id u) = Some u"
  then show "post_reset_password e st sess (Some new) =
          (Reply 200 (Some (u\<lparr> u_password := hashPassword e new, u_isFirstLogin := False \<rparr>)),
           st\<lparr> users := AList.update (u_id u)
                            (u\<lparr> u_password := hashPassword e new, u_isFirstLogin := False \<rparr>)
                            (users st) \<rparr>)"
    using post_reset_password_accepted by blast
next
  assume "req_user st sess = None"
  then show "post_reset_password e st sess newPassword = (Fail 401 ''Not authenticated'', st)"
    by (simp add: post_reset_password_def)
qed


text \<open>
  Customer 3 replaces \<^verbatim>\<open>temp\<close> by \<^verbatim>\<open>fresh\<close>: \<^verbatim>\<open>isFirstLogin\<close> is false afterwards,
  \<^verbatim>\<open>fresh\<close> verifies and \<^verbatim>\<open>temp\<close> does not; with the current password \<^verbatim>\<open>wrong\<close>
  the call fails and the store is unchanged; the session route works for the session
  of customer 3 and answers 401 without a session.
\<close>

theorem reset_password_flows_witness:
  "map_option u_isFirstLogin (getUser resetStore 3) = Some False
   \<and> (\<exists>code msg. post_users_reset_password laterEnv demoStore None 3 (Some ''wrong'')
                     (Some ''fresh'') = (Fail code msg, demoStore))
   \<and> comparePasswords laterEnv ''fresh'' (hashPassword laterEnv ''fresh'') = Some True
   \<and> comparePasswords laterEnv ''temp'' (hashPassword laterEnv ''fresh'') \<noteq> Some True
   \<and> post_reset_password laterEnv demoStore (Some 3) (Some ''fresh'') =
       (Reply 200 (Some (snd (users demoStore ! 2)\<lparr> u_password := hashPassword laterEnv ''fresh'',
                                                     u_isFirstLogin := False \<rparr>)),
        demoStore\<lparr> users := AList.update 3
            (snd (users demoStore ! 2)\<lparr> u_password := hashPassword laterEnv ''fresh'',
                                         u_isFirstLogin := False \<rparr>)
            (users demoStore) \<rparr>)
   \<and> post_reset_password laterEnv demoStore None (Some ''fresh'') =
       (Fail 401 ''Not authenticated'', demoStore)"
proof -
  have c: "comparePasswords laterEnv ''temp'' (u_password (snd (users demoStore ! 2))) = Some True"
    using demo_password by (simp add: demo_user3)
  have accepted:
    "post_users_reset_password laterEnv demoStore None 3 (Some ''temp'') (Some ''fresh'') =
       (Reply 200 ''Password updated successfully'', resetStore)"
    unfolding resetStore_def
    using post_users_reset_password_accepted [OF demo_user3(1) _ _ _ c, of "''fresh''" None]
    by simp
  have wrong:
    "getUser demoStore 3 = Some (snd (users demoStore ! 2))
     \<and> comparePasswords laterEnv ''wrong'' (u_password (snd (users demoStore ! 2))) \<noteq> Some True"
    using comparePasswords_old [OF later_scrypt, of "''wrong''" "''temp''"] demo_keys_differ(1)
    by (simp add: demo_user3 demoHash_def)
  have session:
    "req_user demoStore (Some 3) = Some (snd (users demoStore ! 2))
     \<and> getUser demoStore (u_id (snd (users demoStore ! 2))) = Some (snd (users demoStore ! 2))"
    by (simp add: req_user_def demo_user3)
  have anonymous: "req_user demoStore None = None"
    by (simp add: req_user_def)
  note flows = reset_password_flows [where e = laterEnv and e' = laterEnv and st = demoStore]
  note first = flows [THEN conjunct1, THEN mp, OF accepted]
  note second = flows [THEN conjunct2, THEN conjunct1, THEN mp, OF wrong, of None "Some ''fresh''"]
  note third = flows [THEN conjunct2, THEN conjunct2, THEN conjunct1, THEN mp, OF refl,
      of "''fresh''"]
  note fourth = flows [THEN conjunct2, THEN conjunct2, THEN conjunct2, THEN conjunct1, THEN mp,
      OF refl, of "''temp''" "''fresh''"]
  note fifth = flows [THEN conjunct2, THEN conjunct2, THEN conjunct2, THEN conjunct2,
      THEN conjunct1, THEN mp, OF session, of "''fresh''"]
  note sixth = flows [THEN conjunct2, THEN conjunct2, THEN conjunct2, THEN conjunct2,
      THEN conjunct2, THEN mp, OF anonymous, of "Some ''fresh''"]
  have "map_option u_isFirstLogin (getUser resetStore 3) = Some False"
    using first by auto
  then show ?thesis
    using second third fourth fifth sixth demo_keys_differ(2) by (simp add: demo_user3)
qed

subsection \<open>Claim C9: the reset route has no session check\<close>

text \<open>
  C9. \<^verbatim>\<open>POST /api/users/:userId/reset-password\<close> is registered without middleware and
  its handler never reads the session. On a store the operations produce, a request
  with the id of an existing user, that user's current password and a new password
  (both non-empty: the handler takes an empty string for a missing field) is answered
  200 and the user's credential is replaced, whatever the session is: none, the
  user's own, or another user's. The reply to any request is the same for every
  session, and it is never a 401.
\<close>

theorem reset_password_without_session:
  assumes "store_ok st" and "getUser st userId = Some u"
    and "current \<noteq> []" and "new \<noteq> []"
    and "comparePasswords e current (u_password u) = Some True"
  shows "post_users_reset_password e st sess userId (Some current) (Some new) =
           (Reply 200 ''Password updated successfully'',
            st\<lparr> users := AList.update userId
                             (u\<lparr> u_password := hashPassword e new, u_isFirstLogin := False \<rparr>)
                             (users st) \<rparr>)
       \<and> post_users_reset_password e st sess userId c n =
           post_users_reset_password e st sess' userId c n
       \<and> fst (post_users_reset_password e st sess userId c n) \<noteq> Fail 401 msg"
proof -
  have "keyed u_id (users st) (userIdCounter st)"
    using assms(1) by (simp add: store_ok_def)
  then have "userId \<noteq> 0"
    using assms(2) keyed_lookup [of u_id "users st" _ userId u] by (auto simp: getUser_def)
  then show ?thesis
    using post_users_reset_password_accepted [OF assms(2) _ assms(3,4,5)]
      post_users_reset_password_session [of e st sess userId c n sess']
      post_users_reset_password_not_401 [of e st sess userId c n msg]
    by simp
qed


text \<open>
  With the session of customer 4, the password of customer 3 is replaced; the reply
  is the one given without any session.
\<close>

theorem reset_password_without_session_witness:
  "post_users_reset_password laterEnv demoStore (Some 4) 3 (Some ''temp'') (Some ''fresh'') =
     (Reply 200 ''Password updated successfully'',
      demoStore\<lparr> users := AList.update 3
          (snd (users demoStore ! 2)\<lparr> u_password := hashPassword laterEnv ''fresh'',
                                       u_isFirstLogin := False \<rparr>)
          (users demoStore) \<rparr>)
   \<and> post_users_reset_password laterEnv demoStore (Some 4) 3 (Some ''temp'') (Some ''fresh'') =
       post_users_reset_password laterEnv demoStore None 3 (Some ''temp'') (Some ''fresh'')"
proof -
  have c: "comparePasswords laterEnv ''temp'' (u_password (snd (users demoStore ! 2))) = Some True"
    using demo_password by (simp add: demo_user3)
  have "''temp'' \<noteq> []" "''fresh'' \<noteq> []"
    by simp_all
  from reset_password_without_session [OF demoStore_ok demo_user3(1) this c,
        where sess = "Some 4" and c = "Some ''temp''" and n = "Some ''fresh''"
          and sess' = None and msg = "''Unauthorized''"]
  show ?thesis
    by blast
qed

subsection \<open>Claim C10: the bid listing has no membership or ownership check\<close>



end
